theory Spec2Isabelle
  imports Complex_Main "HOL-Library.Word"
begin

unbundle bit_operations_syntax

section \<open>JavaScript strings\<close>

text \<open>
  A JavaScript string is a sequence of 16-bit code units. Program literals are ASCII (with
  one exception, spelled out where it occurs) and are embedded with \<open>js\<close>.
\<close>

type_synonym jchar = "16 word"
type_synonym jstring = "jchar list"

definition js :: "string \<Rightarrow> jstring" where
  "js s = map of_char s"

text \<open>
  \<open>String.prototype.trim\<close> strips the code units of the WhiteSpace and LineTerminator
  productions of ECMAScript from both ends: TAB, LF, VT, FF, CR, SP, NBSP, U+1680,
  U+2000 to U+200A, U+2028, U+2029, U+202F, U+205F, U+3000 and U+FEFF.
\<close>

definition is_ws :: "jchar \<Rightarrow> bool" where
  "is_ws c = (c = 0x09 \<or> c = 0x0A \<or> c = 0x0B \<or> c = 0x0C \<or> c = 0x0D \<or> c = 0x20 \<or>
     c = 0xA0 \<or> c = 0x1680 \<or> (0x2000 \<le> c \<and> c \<le> 0x200A) \<or> c = 0x2028 \<or>
     c = 0x2029 \<or> c = 0x202F \<or> c = 0x205F \<or> c = 0x3000 \<or> c = 0xFEFF)"

definition trimStart :: "jstring \<Rightarrow> jstring" where
  "trimStart s = dropWhile is_ws s"

definition trimEnd :: "jstring \<Rightarrow> jstring" where
  "trimEnd s = rev (dropWhile is_ws (rev s))"

definition trim :: "jstring \<Rightarrow> jstring" where
  "trim s = trimEnd (trimStart s)"

text \<open>A string is blank when trimming leaves nothing of it.\<close>

definition blank :: "jstring \<Rightarrow> bool" where
  "blank s = (trim s = [])"

section \<open>JavaScript numbers\<close>

text \<open>
  A Number is a binary64 value: NaN, an infinity, or a finite value, kept here as the
  rational it denotes (the sign of zero is not kept: nothing in the program observes it).
  \<open>round64\<close> is the rounding of a real to the nearest binary64 value, ties to even,
  which every numeric literal and every arithmetic result goes through.
\<close>

datatype jsnum = NaN | PosInf | NegInf | Fin rat

definition ipow :: "int \<Rightarrow> int \<Rightarrow> rat" where
  "ipow b k = (if 0 \<le> k then of_int b ^ nat k else 1 / of_int b ^ nat (- k))"

function ndigits :: "int \<Rightarrow> int \<Rightarrow> int" where
  "ndigits b a = (if 0 < a \<and> 1 < b then 1 + ndigits b (a div b) else 0)"
  by pat_completeness auto
termination
proof (relation "measure (\<lambda>(b, a). nat a)")
  show "wf (measure (\<lambda>(b, a). nat a))" by simp
next
  fix b a :: int
  assume h: "0 < a \<and> 1 < b"
  then have "a div b < a" by (simp add: int_div_less_self)
  moreover have "0 \<le> a div b" using h by (simp add: pos_imp_zdiv_nonneg_iff)
  ultimately show "((b, a div b), (b, a)) \<in> measure (\<lambda>(b, a). nat a)" using h by simp
qed

declare ndigits.simps [simp del]

text \<open>\<open>ilog b q\<close> is the integer \<open>e\<close> with \<open>b ^ e \<le> q < b ^ (e + 1)\<close>, for \<open>q > 0\<close>.\<close>

definition ilog :: "int \<Rightarrow> rat \<Rightarrow> int" where
  "ilog b q = (case quotient_of q of (p, d) \<Rightarrow>
     (let k = ndigits b p - ndigits b d
      in if ipow b k \<le> q then k else k - 1))"

definition round_half_even :: "rat \<Rightarrow> int" where
  "round_half_even x = (let f = \<lfloor>x\<rfloor>; d = x - of_int f
     in if d < 1 / 2 then f else if 1 / 2 < d then f + 1 else if even f then f else f + 1)"

definition round64 :: "rat \<Rightarrow> jsnum" where
  "round64 q = (if q = 0 then Fin 0 else
     (let a = \<bar>q\<bar>; e = max (ilog 2 a) (- 1022); u = ipow 2 (e - 52);
          r = of_int (round_half_even (a / u)) * u
      in if ipow 2 1024 \<le> r then (if 0 < q then PosInf else NegInf)
         else Fin (if 0 < q then r else - r)))"

subsection \<open>Number to string\<close>

function dec_digits :: "int \<Rightarrow> jstring" where
  "dec_digits n = (if n < 10 then [of_int (48 + n)]
                   else dec_digits (n div 10) @ [of_int (48 + n mod 10)])"
  by pat_completeness auto
termination
  by (relation "measure nat") auto

declare dec_digits.simps [simp del]

text \<open>
  \<open>Number::toString\<close> prints the shortest decimal numeral that reads back as the same
  binary64 value: the least count \<open>k\<close> of digits for which some \<open>s\<close> of \<open>k\<close> digits and
  some \<open>n\<close> give \<open>s * 10 ^ (n - k)\<close> rounding to the value, the \<open>s\<close> closest to the value
  among those, the even one on a tie.
\<close>

definition digit_candidates :: "rat \<Rightarrow> int \<Rightarrow> int \<Rightarrow> (int \<times> int) list" where
  "digit_candidates q k n = (let f = \<lfloor>q / ipow 10 (n - k)\<rfloor> in
     filter (\<lambda>(s, m). ipow 10 (k - 1) \<le> of_int s \<and> of_int s < ipow 10 k \<and>
                      round64 (of_int s * ipow 10 (m - k)) = Fin q)
       [(f, n), (f + 1, n)])"

fun closest :: "rat \<Rightarrow> int \<Rightarrow> (int \<times> int) \<Rightarrow> (int \<times> int) list \<Rightarrow> (int \<times> int)" where
  "closest q k best [] = best"
| "closest q k (s, n) ((s', n') # cs) =
     (let d = \<bar>of_int s * ipow 10 (n - k) - q\<bar>; d' = \<bar>of_int s' * ipow 10 (n' - k) - q\<bar>
      in if d' < d \<or> (d' = d \<and> even s' \<and> odd s) then closest q k (s', n') cs
         else closest q k (s, n) cs)"

fun shortest_digits :: "rat \<Rightarrow> int \<Rightarrow> int list \<Rightarrow> (int \<times> int \<times> int)" where
  "shortest_digits q n0 [] = (\<lfloor>q * ipow 10 (17 - n0)\<rfloor>, 17, n0)"
| "shortest_digits q n0 (k # ks) =
     (case digit_candidates q k n0 @ digit_candidates q k (n0 + 1) of
        [] \<Rightarrow> shortest_digits q n0 ks
      | c # cs \<Rightarrow> (case closest q k c cs of (s, n) \<Rightarrow> (s, k, n)))"

definition zeros :: "int \<Rightarrow> jstring" where
  "zeros n = replicate (nat n) 0x30"

definition pos_to_string :: "rat \<Rightarrow> jstring" where
  "pos_to_string q = (case shortest_digits q (ilog 10 q + 1) [1, 2, 3, 4, 5, 6, 7, 8, 9, 10, 11, 12, 13, 14, 15, 16, 17] of
     (s, k, n) \<Rightarrow>
       (let ds = dec_digits s in
        if k \<le> n \<and> n \<le> 21 then ds @ zeros (n - k)
        else if 0 < n \<and> n \<le> 21 then take (nat n) ds @ js ''.'' @ drop (nat n) ds
        else if - 6 < n \<and> n \<le> 0 then js ''0.'' @ zeros (- n) @ ds
        else (let ex = (if n - 1 < 0 then js ''-'' else js ''+'') @ dec_digits \<bar>n - 1\<bar>
              in if k = 1 then ds @ js ''e'' @ ex
                 else take 1 ds @ js ''.'' @ drop 1 ds @ js ''e'' @ ex)))"

definition num_to_string :: "jsnum \<Rightarrow> jstring" where
  "num_to_string x = (case x of
       NaN \<Rightarrow> js ''NaN''
     | PosInf \<Rightarrow> js ''Infinity''
     | NegInf \<Rightarrow> js ''-Infinity''
     | Fin q \<Rightarrow> (if q = 0 then js ''0''
                 else if q < 0 then js ''-'' @ pos_to_string (- q)
                 else pos_to_string q))"

section \<open>JavaScript values and exceptions\<close>

text \<open>
  The values that JSON can carry, and \<open>undefined\<close>. An object is the list of its own
  properties in insertion order (the engine's reordering of integer-like keys is not
  modelled: no function below observes the order of keys).
\<close>

datatype jsval =
    JUndefined
  | JNull
  | JBool bool
  | JNum jsnum
  | JStr jstring
  | JArr "jsval list"
  | JObj "(jstring \<times> jsval) list"

text \<open>
  The program observes an exception through \<open>err.name === 'TypeError'\<close> and through
  \<open>err.message\<close>. The message of a TypeError is the engine's own and is never shown,
  so a TypeError carries none; any other exception carries its message.
\<close>

datatype js_exn = TypeError | OtherError jstring

definition then_do :: "'e + 'a \<Rightarrow> ('a \<Rightarrow> 'e + 'b) \<Rightarrow> 'e + 'b" where
  "then_do m f = (case m of Inl e \<Rightarrow> Inl e | Inr x \<Rightarrow> f x)"

fun truthy :: "jsval \<Rightarrow> bool" where
  "truthy JUndefined = False"
| "truthy JNull = False"
| "truthy (JBool b) = b"
| "truthy (JNum n) = (n \<noteq> NaN \<and> n \<noteq> Fin 0)"
| "truthy (JStr s) = (s \<noteq> [])"
| "truthy (JArr xs) = True"
| "truthy (JObj kvs) = True"

text \<open>\<open>a || b\<close> on values.\<close>

definition or_else :: "jsval \<Rightarrow> jsval \<Rightarrow> jsval" where
  "or_else a b = (if truthy a then a else b)"

text \<open>A canonical array index: a decimal numeral without a leading zero.\<close>

definition is_digit :: "jchar \<Rightarrow> bool" where
  "is_digit c = (0x30 \<le> c \<and> c \<le> 0x39)"

definition digits_value :: "jstring \<Rightarrow> int" where
  "digits_value ds = foldl (\<lambda>a c. 10 * a + (uint c - 48)) 0 ds"

definition array_index :: "jstring \<Rightarrow> nat option" where
  "array_index k = (if k \<noteq> [] \<and> list_all is_digit k \<and> (k = [0x30] \<or> hd k \<noteq> 0x30)
                    then Some (nat (digits_value k)) else None)"

text \<open>
  Reading a property, \<open>v.k\<close>: a TypeError on \<open>undefined\<close> and \<open>null\<close>, the own property
  otherwise, \<open>undefined\<close> when there is none. The names the program reads are never
  names that a prototype supplies.
\<close>

fun get_prop :: "jsval \<Rightarrow> jstring \<Rightarrow> js_exn + jsval" where
  "get_prop JUndefined k = Inl TypeError"
| "get_prop JNull k = Inl TypeError"
| "get_prop (JBool b) k = Inr JUndefined"
| "get_prop (JNum n) k = Inr JUndefined"
| "get_prop (JStr s) k =
     (if k = js ''length'' then Inr (JNum (Fin (of_nat (length s))))
      else (case array_index k of
              Some i \<Rightarrow> Inr (if i < length s then JStr [s ! i] else JUndefined)
            | None \<Rightarrow> Inr JUndefined))"
| "get_prop (JArr xs) k =
     (if k = js ''length'' then Inr (JNum (Fin (of_nat (length xs))))
      else (case array_index k of
              Some i \<Rightarrow> Inr (if i < length xs then xs ! i else JUndefined)
            | None \<Rightarrow> Inr JUndefined))"
| "get_prop (JObj kvs) k = Inr (case map_of kvs k of Some v \<Rightarrow> v | None \<Rightarrow> JUndefined)"

text \<open>\<open>v.trim()\<close>: only a string has the method.\<close>

fun str_trim :: "jsval \<Rightarrow> js_exn + jstring" where
  "str_trim (JStr s) = Inr (trim s)"
| "str_trim v = Inl TypeError"

text \<open>\<open>v?.trim()\<close>: \<open>undefined\<close> on \<open>undefined\<close> and \<open>null\<close>.\<close>

fun opt_trim :: "jsval \<Rightarrow> js_exn + jsval" where
  "opt_trim JUndefined = Inr JUndefined"
| "opt_trim JNull = Inr JUndefined"
| "opt_trim (JStr s) = Inr (JStr (trim s))"
| "opt_trim v = Inl TypeError"

subsection \<open>Conversion to string\<close>

fun join_with :: "jstring \<Rightarrow> jstring list \<Rightarrow> jstring" where
  "join_with sep [] = []"
| "join_with sep [x] = x"
| "join_with sep (x # y # ys) = x @ sep @ join_with sep (y # ys)"

text \<open>
  \<open>String(v)\<close>. An array prints its elements joined by commas, \<open>undefined\<close> and \<open>null\<close>
  elements as nothing; an object prints as \<open>[object Object]\<close>, unless an own property
  \<open>toString\<close> (never a function in JSON data) hides the inherited method, when the
  conversion throws a TypeError.
\<close>

fun to_string_raw :: "jsval \<Rightarrow> jstring" where
  "to_string_raw JUndefined = js ''undefined''"
| "to_string_raw JNull = js ''null''"
| "to_string_raw (JBool b) = (if b then js ''true'' else js ''false'')"
| "to_string_raw (JNum n) = num_to_string n"
| "to_string_raw (JStr s) = s"
| "to_string_raw (JArr xs) =
     join_with (js '','')
       (map (\<lambda>x. if x = JUndefined \<or> x = JNull then [] else to_string_raw x) xs)"
| "to_string_raw (JObj kvs) = js ''[object Object]''"

fun printable :: "jsval \<Rightarrow> bool" where
  "printable (JArr xs) = list_all printable xs"
| "printable (JObj kvs) = (map_of kvs (js ''toString'') = None)"
| "printable v = True"

definition to_string :: "jsval \<Rightarrow> js_exn + jstring" where
  "to_string v = (if printable v then Inr (to_string_raw v) else Inl TypeError)"

text \<open>\<open>new Error(v)\<close>, thrown: the message is \<open>String(v)\<close>, empty for \<open>undefined\<close>.\<close>

definition throw_error :: "jsval \<Rightarrow> js_exn" where
  "throw_error v = (if v = JUndefined then OtherError []
                    else (case to_string v of Inl e \<Rightarrow> e | Inr m \<Rightarrow> OtherError m))"

section \<open>JSON text\<close>

subsection \<open>JSON.stringify\<close>

definition hex_digit :: "nat \<Rightarrow> jchar" where
  "hex_digit d = (if d < 10 then of_nat (48 + d) else of_nat (87 + d))"

definition hex4 :: "jchar \<Rightarrow> jstring" where
  "hex4 c = (let n = unat c
             in map hex_digit [n div 4096, n div 256 mod 16, n div 16 mod 16, n mod 16])"

definition is_high_surrogate :: "jchar \<Rightarrow> bool" where
  "is_high_surrogate c = (0xD800 \<le> c \<and> c \<le> 0xDBFF)"

definition is_low_surrogate :: "jchar \<Rightarrow> bool" where
  "is_low_surrogate c = (0xDC00 \<le> c \<and> c \<le> 0xDFFF)"

text \<open>
  The escape of one code unit in a quoted string: the short escapes, \<open>\uXXXX\<close> with
  lower-case digits for the other control characters and for a surrogate that is not
  part of a pair, the code unit itself otherwise.
\<close>

definition json_escape :: "jchar \<Rightarrow> jstring" where
  "json_escape c =
     (if c = 0x08 then [0x5C, 0x62]
      else if c = 0x09 then [0x5C, 0x74]
      else if c = 0x0A then [0x5C, 0x6E]
      else if c = 0x0C then [0x5C, 0x66]
      else if c = 0x0D then [0x5C, 0x72]
      else if c = 0x22 then [0x5C, 0x22]
      else if c = 0x5C then [0x5C, 0x5C]
      else if c < 0x20 \<or> is_high_surrogate c \<or> is_low_surrogate c then [0x5C, 0x75] @ hex4 c
      else [c])"

fun quote_chars :: "jstring \<Rightarrow> jstring" where
  "quote_chars [] = []"
| "quote_chars [c] = json_escape c"
| "quote_chars (c # d # cs) =
     (if is_high_surrogate c \<and> is_low_surrogate d then c # d # quote_chars cs
      else json_escape c @ quote_chars (d # cs))"

definition json_quote :: "jstring \<Rightarrow> jstring" where
  "json_quote s = [0x22] @ quote_chars s @ [0x22]"

text \<open>
  The serialization of a value other than \<open>undefined\<close>: a number that is not finite
  prints as \<open>null\<close>, an \<open>undefined\<close> element of an array prints as \<open>null\<close>, a property
  whose value is \<open>undefined\<close> is left out.
\<close>

fun serialize :: "jsval \<Rightarrow> jstring" where
  "serialize JUndefined = js ''null''"
| "serialize JNull = js ''null''"
| "serialize (JBool b) = (if b then js ''true'' else js ''false'')"
| "serialize (JNum n) = (case n of Fin q \<Rightarrow> num_to_string n | _ \<Rightarrow> js ''null'')"
| "serialize (JStr s) = json_quote s"
| "serialize (JArr xs) = js ''['' @ join_with (js '','') (map serialize xs) @ js '']''"
| "serialize (JObj kvs) =
     js ''{'' @
     join_with (js '','')
       (map (\<lambda>kv. json_quote (fst kv) @ js '':'' @ serialize (snd kv))
          (filter (\<lambda>kv. snd kv \<noteq> JUndefined) kvs)) @
     js ''}''"

text \<open>\<open>JSON.stringify(v)\<close> is \<open>undefined\<close> for \<open>undefined\<close>, a string otherwise.\<close>

definition JSON_stringify :: "jsval \<Rightarrow> jsval" where
  "JSON_stringify v = (if v = JUndefined then JUndefined else JStr (serialize v))"

subsection \<open>JSON.parse: tokens\<close>

datatype token =
    TLBrace | TRBrace | TLBracket | TRBracket | TColon | TComma
  | TStr jstring | TNum jsnum | TTrue | TFalse | TNull

definition json_ws :: "jchar \<Rightarrow> bool" where
  "json_ws c = (c = 0x20 \<or> c = 0x09 \<or> c = 0x0A \<or> c = 0x0D)"

definition hex_value :: "jchar \<Rightarrow> nat option" where
  "hex_value c =
     (if 0x30 \<le> c \<and> c \<le> 0x39 then Some (unat c - 48)
      else if 0x41 \<le> c \<and> c \<le> 0x46 then Some (unat c - 55)
      else if 0x61 \<le> c \<and> c \<le> 0x66 then Some (unat c - 87)
      else None)"

definition hex4_value :: "jchar \<Rightarrow> jchar \<Rightarrow> jchar \<Rightarrow> jchar \<Rightarrow> jchar option" where
  "hex4_value a b c d =
     (case (hex_value a, hex_value b, hex_value c, hex_value d) of
        (Some w, Some x, Some y, Some z) \<Rightarrow> Some (of_nat (((w * 16 + x) * 16 + y) * 16 + z))
      | _ \<Rightarrow> None)"

definition unescape :: "jchar \<Rightarrow> jchar option" where
  "unescape e =
     (if e = 0x22 then Some 0x22
      else if e = 0x5C then Some 0x5C
      else if e = 0x2F then Some 0x2F
      else if e = 0x62 then Some 0x08
      else if e = 0x66 then Some 0x0C
      else if e = 0x6E then Some 0x0A
      else if e = 0x72 then Some 0x0D
      else if e = 0x74 then Some 0x09
      else None)"

definition cons_char :: "jchar \<Rightarrow> (jstring \<times> jstring) option \<Rightarrow> (jstring \<times> jstring) option" where
  "cons_char c r = (case r of None \<Rightarrow> None | Some (s, rest) \<Rightarrow> Some (c # s, rest))"

text \<open>
  The characters of a string literal after its opening quote, up to the closing quote:
  the string they denote and the text that follows, or nothing when the literal is not
  closed, holds a raw control character or a malformed escape.
\<close>

fun scan_string :: "jstring \<Rightarrow> (jstring \<times> jstring) option" where
  "scan_string [] = None"
| "scan_string (c # cs) =
     (if c = 0x22 then Some ([], cs)
      else if c = 0x5C then
        (case cs of
           [] \<Rightarrow> None
         | e # cs1 \<Rightarrow>
             (if e = 0x75 then
                (case cs1 of
                   h1 # h2 # h3 # h4 # cs2 \<Rightarrow>
                     (case hex4_value h1 h2 h3 h4 of
                        Some w \<Rightarrow> cons_char w (scan_string cs2)
                      | None \<Rightarrow> None)
                 | _ \<Rightarrow> None)
              else (case unescape e of
                      Some x \<Rightarrow> cons_char x (scan_string cs1)
                    | None \<Rightarrow> None)))
      else if c < 0x20 then None
      else cons_char c (scan_string cs))"

text \<open>
  A number literal: an optional minus, an integer part without a leading zero, an
  optional fraction, an optional exponent. Its value is the binary64 nearest to the
  decimal it writes.
\<close>

definition scan_int_part :: "jstring \<Rightarrow> (jstring \<times> jstring) option" where
  "scan_int_part cs =
     (case cs of
        [] \<Rightarrow> None
      | c # cs1 \<Rightarrow>
          (if c = 0x30 then Some ([c], cs1)
           else if is_digit c then Some (takeWhile is_digit cs, dropWhile is_digit cs)
           else None))"

definition scan_fraction :: "jstring \<Rightarrow> (jstring \<times> jstring) option" where
  "scan_fraction cs =
     (case cs of
        c # cs1 \<Rightarrow>
          (if c = 0x2E then
             (if takeWhile is_digit cs1 = [] then None
              else Some (takeWhile is_digit cs1, dropWhile is_digit cs1))
           else Some ([], cs))
      | [] \<Rightarrow> Some ([], cs))"

definition scan_exponent :: "jstring \<Rightarrow> (int \<times> jstring) option" where
  "scan_exponent cs =
     (case cs of
        c # cs1 \<Rightarrow>
          (if c = 0x65 \<or> c = 0x45 then
             (let neg = (cs1 \<noteq> [] \<and> hd cs1 = 0x2D);
                  cs2 = (if cs1 \<noteq> [] \<and> (hd cs1 = 0x2D \<or> hd cs1 = 0x2B) then tl cs1 else cs1)
              in if takeWhile is_digit cs2 = [] then None
                 else Some ((if neg then - 1 else 1) * digits_value (takeWhile is_digit cs2),
                            dropWhile is_digit cs2))
           else Some (0, cs))
      | [] \<Rightarrow> Some (0, cs))"

definition decimal_value :: "bool \<Rightarrow> jstring \<Rightarrow> jstring \<Rightarrow> int \<Rightarrow> rat" where
  "decimal_value neg ip fp ex =
     (if neg then - 1 else 1) *
     (of_int (digits_value ip) + of_int (digits_value fp) / ipow 10 (int (length fp))) *
     ipow 10 ex"

definition scan_number :: "jstring \<Rightarrow> (jsnum \<times> jstring) option" where
  "scan_number cs =
     (let neg = (cs \<noteq> [] \<and> hd cs = 0x2D); cs0 = (if neg then tl cs else cs)
      in case scan_int_part cs0 of
           None \<Rightarrow> None
         | Some (ip, cs1) \<Rightarrow>
             (case scan_fraction cs1 of
                None \<Rightarrow> None
              | Some (fp, cs2) \<Rightarrow>
                  (case scan_exponent cs2 of
                     None \<Rightarrow> None
                   | Some (ex, cs3) \<Rightarrow> Some (round64 (decimal_value neg ip fp ex), cs3))))"

lemma cons_char_Some:
  "cons_char c r = Some (s, rest) \<Longrightarrow> \<exists>s'. r = Some (s', rest)"
  by (auto simp: cons_char_def split: option.splits)

lemma scan_string_shorter:
  "scan_string cs = Some (s, rest) \<Longrightarrow> length rest < length cs"
proof (induction cs arbitrary: s rule: scan_string.induct)
  case 1
  then show ?case by simp
next
  case (2 c cs)
  show ?case
  proof (cases "c = 0x22")
    case True
    with "2.prems" show ?thesis by simp
  next
    case nq: False
    show ?thesis
    proof (cases "c = 0x5C")
      case True
      with nq "2.prems" obtain e cs1 where cs: "cs = e # cs1"
        by (cases cs) auto
      show ?thesis
      proof (cases "e = 0x75")
        case eu: True
        with nq True cs "2.prems" obtain h1 t1 h2 t2 h3 t3 h4 cs2 w s'
          where a1: "cs1 = h1 # t1" and a2: "t1 = h2 # t2" and a3: "t2 = h3 # t3"
            and a4: "t3 = h4 # cs2"
            and w: "hex4_value h1 h2 h3 h4 = Some w"
            and r: "scan_string cs2 = Some (s', rest)"
          by (auto split: list.splits option.splits dest: cons_char_Some)
        from "2.IH"(1) [OF nq True cs eu a1 a2 a3 a4 w r] show ?thesis
          by (simp add: cs a1 a2 a3 a4)
      next
        case eu: False
        with nq True cs "2.prems" obtain x s'
          where x: "unescape e = Some x" and r: "scan_string cs1 = Some (s', rest)"
          by (auto split: option.splits dest: cons_char_Some)
        from "2.IH"(2) [OF nq True cs eu x r] show ?thesis
          by (simp add: cs)
      qed
    next
      case nb: False
      with nq "2.prems" have ok: "\<not> c < 0x20"
        by (auto split: if_splits)
      with nq nb "2.prems" obtain s' where r: "scan_string cs = Some (s', rest)"
        by (auto dest: cons_char_Some)
      from "2.IH"(3) [OF nq nb ok r] show ?thesis by simp
    qed
  qed
qed

lemma scan_int_part_shorter:
  "scan_int_part cs = Some (ip, rest) \<Longrightarrow> length rest < length cs"
proof -
  assume a: "scan_int_part cs = Some (ip, rest)"
  then obtain c cs1 where cs: "cs = c # cs1"
    by (cases cs) (auto simp: scan_int_part_def)
  show ?thesis
  proof (cases "c = 0x30")
    case True
    with a cs show ?thesis by (simp add: scan_int_part_def)
  next
    case False
    with a cs have d: "is_digit c" and r: "rest = dropWhile is_digit cs"
      by (auto simp: scan_int_part_def split: if_splits)
    have "length (dropWhile is_digit cs1) \<le> length cs1"
      by (rule length_dropWhile_le)
    with d r cs show ?thesis by simp
  qed
qed

lemma scan_fraction_shorter:
  "scan_fraction cs = Some (fp, rest) \<Longrightarrow> length rest \<le> length cs"
proof -
  assume a: "scan_fraction cs = Some (fp, rest)"
  show ?thesis
  proof (cases cs)
    case Nil
    with a show ?thesis by (simp add: scan_fraction_def)
  next
    case (Cons c cs1)
    have "length (dropWhile is_digit cs1) \<le> length cs1"
      by (rule length_dropWhile_le)
    with a Cons show ?thesis
      by (auto simp: scan_fraction_def split: if_splits)
  qed
qed

lemma scan_exponent_shorter:
  "scan_exponent cs = Some (ex, rest) \<Longrightarrow> length rest \<le> length cs"
proof -
  assume a: "scan_exponent cs = Some (ex, rest)"
  show ?thesis
  proof (cases cs)
    case Nil
    with a show ?thesis by (simp add: scan_exponent_def)
  next
    case (Cons c cs1)
    have l1: "length (dropWhile is_digit cs1) \<le> length cs1"
      by (rule length_dropWhile_le)
    have l2: "length (dropWhile is_digit (tl cs1)) \<le> length (tl cs1)"
      by (rule length_dropWhile_le)
    have l3: "length (tl cs1) \<le> length cs1"
      by simp
    from a Cons l1 l2 l3 show ?thesis
      by (auto simp: scan_exponent_def Let_def split: if_splits)
  qed
qed

lemma scan_number_shorter:
  "scan_number cs = Some (n, rest) \<Longrightarrow> length rest < length cs"
proof -
  assume a: "scan_number cs = Some (n, rest)"
  define cs0 where "cs0 = (if cs \<noteq> [] \<and> hd cs = 0x2D then tl cs else cs)"
  have l0: "length cs0 \<le> length cs"
    by (simp add: cs0_def)
  from a obtain ip cs1 fp cs2 ex
    where i: "scan_int_part cs0 = Some (ip, cs1)"
      and f: "scan_fraction cs1 = Some (fp, cs2)"
      and e: "scan_exponent cs2 = Some (ex, rest)"
    by (auto simp: scan_number_def Let_def cs0_def split: option.splits)
  from scan_int_part_shorter [OF i] scan_fraction_shorter [OF f] scan_exponent_shorter [OF e] l0
  show ?thesis by simp
qed

definition cons_token :: "token \<Rightarrow> token list option \<Rightarrow> token list option" where
  "cons_token t r = (case r of None \<Rightarrow> None | Some ts \<Rightarrow> Some (t # ts))"

text \<open>The tokens of a text, or nothing when some character starts no token.\<close>

function tokens :: "jstring \<Rightarrow> token list option" where
  "tokens [] = Some []"
| "tokens (c # cs) =
     (if json_ws c then tokens cs
      else if c = 0x7B then cons_token TLBrace (tokens cs)
      else if c = 0x7D then cons_token TRBrace (tokens cs)
      else if c = 0x5B then cons_token TLBracket (tokens cs)
      else if c = 0x5D then cons_token TRBracket (tokens cs)
      else if c = 0x3A then cons_token TColon (tokens cs)
      else if c = 0x2C then cons_token TComma (tokens cs)
      else if c = 0x22 then
        (case scan_string cs of
           None \<Rightarrow> None
         | Some (s, rest) \<Rightarrow> cons_token (TStr s) (tokens rest))
      else if c = 0x2D \<or> is_digit c then
        (case scan_number (c # cs) of
           None \<Rightarrow> None
         | Some (n, rest) \<Rightarrow> cons_token (TNum n) (tokens rest))
      else if c = 0x74 \<and> take 3 cs = js ''rue'' then cons_token TTrue (tokens (drop 3 cs))
      else if c = 0x66 \<and> take 4 cs = js ''alse'' then cons_token TFalse (tokens (drop 4 cs))
      else if c = 0x6E \<and> take 3 cs = js ''ull'' then cons_token TNull (tokens (drop 3 cs))
      else None)"
  by pat_completeness auto
termination
  by (relation "measure length") (auto dest: scan_string_shorter scan_number_shorter)

subsection \<open>JSON.parse: values\<close>

text \<open>
  Setting a property: the value of a key that is there is replaced where it stands, a
  new key goes to the end.
\<close>

fun set_key :: "(jstring \<times> jsval) list \<Rightarrow> jstring \<Rightarrow> jsval \<Rightarrow> (jstring \<times> jsval) list" where
  "set_key [] k v = [(k, v)]"
| "set_key ((k', v') # kvs) k v =
     (if k' = k then (k, v) # kvs else (k', v') # set_key kvs k v)"

text \<open>
  The parser reads the tokens from left to right, with a stack of the arrays and objects
  that are open: an array with its elements so far, an object with its members so far,
  an object with the key whose value is due.
\<close>

datatype frame =
    FArr "jsval list"
  | FObj "(jstring \<times> jsval) list"
  | FKey "(jstring \<times> jsval) list" jstring

datatype mode =
    MValue
  | MArrStart
  | MObjStart
  | MKey
  | MColon
  | MAfter
  | MDone jsval

fun put_value :: "jsval \<Rightarrow> frame list \<Rightarrow> (mode \<times> frame list) option" where
  "put_value v [] = Some (MDone v, [])"
| "put_value v (FArr xs # st) = Some (MAfter, FArr (xs @ [v]) # st)"
| "put_value v (FKey kvs k # st) = Some (MAfter, FObj (set_key kvs k v) # st)"
| "put_value v (FObj kvs # st) = None"

fun start_value :: "token \<Rightarrow> frame list \<Rightarrow> (mode \<times> frame list) option" where
  "start_value (TStr s) st = put_value (JStr s) st"
| "start_value (TNum n) st = put_value (JNum n) st"
| "start_value TTrue st = put_value (JBool True) st"
| "start_value TFalse st = put_value (JBool False) st"
| "start_value TNull st = put_value JNull st"
| "start_value TLBracket st = Some (MArrStart, FArr [] # st)"
| "start_value TLBrace st = Some (MObjStart, FObj [] # st)"
| "start_value t st = None"

fun close_array :: "frame list \<Rightarrow> (mode \<times> frame list) option" where
  "close_array (FArr xs # st) = put_value (JArr xs) st"
| "close_array st = None"

fun close_object :: "frame list \<Rightarrow> (mode \<times> frame list) option" where
  "close_object (FObj kvs # st) = put_value (JObj kvs) st"
| "close_object st = None"

fun open_key :: "jstring \<Rightarrow> frame list \<Rightarrow> (mode \<times> frame list) option" where
  "open_key k (FObj kvs # st) = Some (MColon, FKey kvs k # st)"
| "open_key k st = None"

fun after_value :: "token \<Rightarrow> frame list \<Rightarrow> (mode \<times> frame list) option" where
  "after_value TComma (FArr xs # st) = Some (MValue, FArr xs # st)"
| "after_value TRBracket (FArr xs # st) = put_value (JArr xs) st"
| "after_value TComma (FObj kvs # st) = Some (MKey, FObj kvs # st)"
| "after_value TRBrace (FObj kvs # st) = put_value (JObj kvs) st"
| "after_value t st = None"

fun parse_step :: "mode \<Rightarrow> frame list \<Rightarrow> token \<Rightarrow> (mode \<times> frame list) option" where
  "parse_step MValue st t = start_value t st"
| "parse_step MArrStart st t = (if t = TRBracket then close_array st else start_value t st)"
| "parse_step MObjStart st t =
     (case t of TStr k \<Rightarrow> open_key k st | TRBrace \<Rightarrow> close_object st | _ \<Rightarrow> None)"
| "parse_step MKey st t = (case t of TStr k \<Rightarrow> open_key k st | _ \<Rightarrow> None)"
| "parse_step MColon st t = (if t = TColon then Some (MValue, st) else None)"
| "parse_step MAfter st t = after_value t st"
| "parse_step (MDone v) st t = None"

fun parse_tokens :: "mode \<Rightarrow> frame list \<Rightarrow> token list \<Rightarrow> jsval option" where
  "parse_tokens m st [] = (case m of MDone v \<Rightarrow> Some v | _ \<Rightarrow> None)"
| "parse_tokens m st (t # ts) =
     (case parse_step m st t of
        None \<Rightarrow> None
      | Some (m', st') \<Rightarrow> parse_tokens m' st' ts)"

text \<open>\<open>JSON.parse(text)\<close>: the value, or nothing when it throws a SyntaxError.\<close>

definition JSON_parse :: "jstring \<Rightarrow> jsval option" where
  "JSON_parse text =
     (case tokens text of
        None \<Rightarrow> None
      | Some ts \<Rightarrow> parse_tokens MValue [] ts)"

section \<open>Strings to numbers\<close>

text \<open>Comparison and arithmetic of Numbers: NaN compares false with everything.\<close>

fun num_less :: "jsnum \<Rightarrow> jsnum \<Rightarrow> bool" where
  "num_less NaN y = False"
| "num_less x NaN = False"
| "num_less (Fin a) (Fin b) = (a < b)"
| "num_less (Fin a) PosInf = True"
| "num_less (Fin a) NegInf = False"
| "num_less PosInf y = False"
| "num_less NegInf NegInf = False"
| "num_less NegInf y = True"

fun num_add :: "jsnum \<Rightarrow> jsnum \<Rightarrow> jsnum" where
  "num_add (Fin a) (Fin b) = round64 (a + b)"
| "num_add NaN y = NaN"
| "num_add x NaN = NaN"
| "num_add PosInf NegInf = NaN"
| "num_add NegInf PosInf = NaN"
| "num_add PosInf y = PosInf"
| "num_add NegInf y = NegInf"
| "num_add x PosInf = PosInf"
| "num_add x NegInf = NegInf"

fun num_neg :: "jsnum \<Rightarrow> jsnum" where
  "num_neg (Fin a) = Fin (- a)"
| "num_neg PosInf = NegInf"
| "num_neg NegInf = PosInf"
| "num_neg NaN = NaN"

definition num_sub :: "jsnum \<Rightarrow> jsnum \<Rightarrow> jsnum" where
  "num_sub x y = num_add x (num_neg y)"

text \<open>Division by a finite divisor that is not zero.\<close>

fun num_div_by :: "jsnum \<Rightarrow> rat \<Rightarrow> jsnum" where
  "num_div_by (Fin a) d = round64 (a / d)"
| "num_div_by NaN d = NaN"
| "num_div_by PosInf d = (if 0 < d then PosInf else NegInf)"
| "num_div_by NegInf d = (if 0 < d then NegInf else PosInf)"

definition starts_with :: "jstring \<Rightarrow> jstring \<Rightarrow> bool" where
  "starts_with p s = (take (length p) s = p)"

text \<open>
  An exponent part, when the text goes on with one: \<open>e\<close> or \<open>E\<close>, an optional sign and
  at least one digit. Without the digits the \<open>e\<close> is not part of the numeral.
\<close>

definition exponent_part :: "jstring \<Rightarrow> int \<times> jstring" where
  "exponent_part cs =
     (case cs of
        [] \<Rightarrow> (0, cs)
      | c # cs1 \<Rightarrow>
          (if c = 0x65 \<or> c = 0x45 then
             (let neg = (cs1 \<noteq> [] \<and> hd cs1 = 0x2D);
                  cs2 = (if cs1 \<noteq> [] \<and> (hd cs1 = 0x2D \<or> hd cs1 = 0x2B) then tl cs1 else cs1)
              in if takeWhile is_digit cs2 = [] then (0, cs)
                 else ((if neg then - 1 else 1) * digits_value (takeWhile is_digit cs2),
                       dropWhile is_digit cs2))
           else (0, cs)))"

text \<open>
  The longest prefix of a text that is an unsigned decimal literal of the string-to-number
  grammar (\<open>Infinity\<close>, \<open>12\<close>, \<open>12.\<close>, \<open>12.5\<close>, \<open>.5\<close>, each of the last four with an
  optional exponent), with the text that follows it.
\<close>

definition unsigned_decimal :: "bool \<Rightarrow> jstring \<Rightarrow> (jsnum \<times> jstring) option" where
  "unsigned_decimal neg cs =
     (if starts_with (js ''Infinity'') cs then Some (if neg then NegInf else PosInf, drop 8 cs)
      else
        (let ip = takeWhile is_digit cs; cs1 = dropWhile is_digit cs;
             dot = (cs1 \<noteq> [] \<and> hd cs1 = 0x2E);
             fp = (if dot then takeWhile is_digit (tl cs1) else []);
             cs2 = (if dot then dropWhile is_digit (tl cs1) else cs1)
         in if ip = [] \<and> fp = [] then None
            else (case exponent_part cs2 of
                    (ex, cs3) \<Rightarrow> Some (round64 (decimal_value neg ip fp ex), cs3))))"

definition signed_decimal :: "jstring \<Rightarrow> (jsnum \<times> jstring) option" where
  "signed_decimal cs =
     (if cs \<noteq> [] \<and> hd cs = 0x2D then unsigned_decimal True (tl cs)
      else if cs \<noteq> [] \<and> hd cs = 0x2B then unsigned_decimal False (tl cs)
      else unsigned_decimal False cs)"

text \<open>\<open>parseFloat(s)\<close>: leading white space is skipped, what follows the literal is ignored.\<close>

definition parseFloat :: "jstring \<Rightarrow> jsnum" where
  "parseFloat s = (case signed_decimal (trimStart s) of None \<Rightarrow> NaN | Some (x, rest) \<Rightarrow> x)"

text \<open>The digits of a literal in base 2, 8 or 16, after its prefix.\<close>

definition digit_in_radix :: "nat \<Rightarrow> jchar \<Rightarrow> bool" where
  "digit_in_radix r c = (case hex_value c of None \<Rightarrow> False | Some d \<Rightarrow> d < r)"

definition radix_value :: "nat \<Rightarrow> jstring \<Rightarrow> int" where
  "radix_value r ds = foldl (\<lambda>a c. int r * a + int (the (hex_value c))) 0 ds"

definition radix_literal :: "nat \<Rightarrow> jstring \<Rightarrow> jsnum" where
  "radix_literal r ds =
     (if ds \<noteq> [] \<and> list_all (digit_in_radix r) ds then round64 (of_int (radix_value r ds)) else NaN)"

text \<open>
  \<open>Number(s)\<close> for a string: white space around the literal is dropped, the empty text
  is zero, and the whole of the rest must be one literal, decimal or prefixed.
\<close>

definition string_to_number :: "jstring \<Rightarrow> jsnum" where
  "string_to_number s =
     (let t = trim s in
      if t = [] then Fin 0
      else if starts_with (js ''0x'') t \<or> starts_with (js ''0X'') t then radix_literal 16 (drop 2 t)
      else if starts_with (js ''0o'') t \<or> starts_with (js ''0O'') t then radix_literal 8 (drop 2 t)
      else if starts_with (js ''0b'') t \<or> starts_with (js ''0B'') t then radix_literal 2 (drop 2 t)
      else (case signed_decimal t of
              Some (x, rest) \<Rightarrow> (if rest = [] then x else NaN)
            | None \<Rightarrow> NaN))"

text \<open>
  \<open>parseInt(s)\<close> without a radix, and \<open>parseInt(s, 10)\<close>: leading white space and a sign,
  then the longest run of digits, hexadecimal after \<open>0x\<close> when no radix is given; NaN
  when there is no digit.
\<close>

definition parse_digits :: "nat \<Rightarrow> bool \<Rightarrow> jstring \<Rightarrow> jsnum" where
  "parse_digits r neg cs =
     (let ds = takeWhile (digit_in_radix r) cs in
      if ds = [] then NaN
      else round64 (of_int ((if neg then - 1 else 1) * radix_value r ds)))"

definition parseInt_radix :: "bool \<Rightarrow> jstring \<Rightarrow> jsnum" where
  "parseInt_radix ten s =
     (let t = trimStart s;
          neg = (t \<noteq> [] \<and> hd t = 0x2D);
          u = (if t \<noteq> [] \<and> (hd t = 0x2D \<or> hd t = 0x2B) then tl t else t)
      in if \<not> ten \<and> (starts_with (js ''0x'') u \<or> starts_with (js ''0X'') u)
         then parse_digits 16 neg (drop 2 u)
         else parse_digits 10 neg u)"

definition parseInt :: "jstring \<Rightarrow> jsnum" where
  "parseInt s = parseInt_radix False s"

definition parseInt10 :: "jstring \<Rightarrow> jsnum" where
  "parseInt10 s = parseInt_radix True s"

text \<open>\<open>Number(v)\<close> for any value, and \<open>isNaN(v)\<close>.\<close>

definition to_number :: "jsval \<Rightarrow> js_exn + jsnum" where
  "to_number v =
     (case v of
        JUndefined \<Rightarrow> Inr NaN
      | JNull \<Rightarrow> Inr (Fin 0)
      | JBool b \<Rightarrow> Inr (Fin (if b then 1 else 0))
      | JNum n \<Rightarrow> Inr n
      | JStr s \<Rightarrow> Inr (string_to_number s)
      | _ \<Rightarrow> then_do (to_string v) (\<lambda>s. Inr (string_to_number s)))"

definition isNaN :: "jsval \<Rightarrow> js_exn + bool" where
  "isNaN v = then_do (to_number v) (\<lambda>n. Inr (n = NaN))"

section \<open>The form stage (FormPage.jsx)\<close>

text \<open>
  The component's state: \<open>formData\<close> is whatever \<open>loadSavedFormData\<close> returned, with the
  edits since; \<open>termsAccepted\<close> is a boolean; \<open>errors\<close> and \<open>apiError\<close> are what is shown.
  The list of known countries is imported from a module that is not part of the sources
  and is a parameter here.
\<close>

type_synonym field_errors = "(jstring \<times> jstring) list"

definition array_includes :: "jstring list \<Rightarrow> jsval \<Rightarrow> bool" where
  "array_includes xs v = (case v of JStr s \<Rightarrow> s \<in> set xs | _ \<Rightarrow> False)"

text \<open>
  \<open>validateForm\<close> returns whether \<open>newErrors\<close> has no key, together with \<open>newErrors\<close>, which
  it stores with \<open>setErrors\<close>.
\<close>

definition validateForm :: "jstring list \<Rightarrow> jsval \<Rightarrow> bool \<Rightarrow> js_exn + (bool \<times> field_errors)" where
  "validateForm countries formData termsAccepted =
     then_do (get_prop formData (js ''country'')) (\<lambda>country.
     then_do (str_trim country) (\<lambda>country_t.
     then_do (then_do (get_prop formData (js ''city'')) str_trim) (\<lambda>city_t.
     then_do (then_do (get_prop formData (js ''rawIdea'')) str_trim) (\<lambda>rawIdea_t.
     then_do (get_prop formData (js ''timeCommitment'')) (\<lambda>timeCommitment.
       (let newErrors =
           (if country_t = [] then [(js ''country'', js ''Country is required'')]
            else if \<not> array_includes countries country
              then [(js ''country'', js ''Please select a country from the dropdown'')]
            else [])
         @ (if city_t = [] then [(js ''city'', js ''City is required'')] else [])
         @ (if rawIdea_t = [] then [(js ''rawIdea'', js ''Raw idea is required'')] else [])
         @ (if \<not> truthy timeCommitment
              then [(js ''timeCommitment'', js ''Time commitment is required'')] else [])
         @ (if \<not> termsAccepted
              then [(js ''terms'', js ''You must accept the terms and conditions'')] else [])
        in Inr (newErrors = [], newErrors)))))))"

text \<open>
  An earlier copy of the form page, kept in the sources beside the results page, has the
  same rules without the membership test on the country.
\<close>

definition validateForm_v1 :: "jsval \<Rightarrow> bool \<Rightarrow> js_exn + (bool \<times> field_errors)" where
  "validateForm_v1 formData termsAccepted =
     then_do (then_do (get_prop formData (js ''country'')) str_trim) (\<lambda>country_t.
     then_do (then_do (get_prop formData (js ''city'')) str_trim) (\<lambda>city_t.
     then_do (then_do (get_prop formData (js ''rawIdea'')) str_trim) (\<lambda>rawIdea_t.
     then_do (get_prop formData (js ''timeCommitment'')) (\<lambda>timeCommitment.
       (let newErrors =
           (if country_t = [] then [(js ''country'', js ''Country is required'')] else [])
         @ (if city_t = [] then [(js ''city'', js ''City is required'')] else [])
         @ (if rawIdea_t = [] then [(js ''rawIdea'', js ''Raw idea is required'')] else [])
         @ (if \<not> truthy timeCommitment
              then [(js ''timeCommitment'', js ''Time commitment is required'')] else [])
         @ (if \<not> termsAccepted
              then [(js ''terms'', js ''You must accept the terms and conditions'')] else [])
        in Inr (newErrors = [], newErrors))))))"

text \<open>
  A form whose fields are all strings, as the inputs of the page produce it, and the
  object that holds it (the keys in the order of the default object).
\<close>

record form =
  businessName :: jstring
  city :: jstring
  country :: jstring
  targetAudience :: jstring
  budget :: jstring
  businessType :: jstring
  rawIdea :: jstring
  problem :: jstring
  model :: jstring
  timeCommitment :: jstring
  outputTone :: jstring
  stageOfIdea :: jstring
  timeHorizon :: jstring

definition form_obj :: "form \<Rightarrow> jsval" where
  "form_obj f = JObj
     [(js ''businessName'', JStr (businessName f)),
      (js ''city'', JStr (city f)),
      (js ''country'', JStr (country f)),
      (js ''targetAudience'', JStr (targetAudience f)),
      (js ''budget'', JStr (budget f)),
      (js ''businessType'', JStr (businessType f)),
      (js ''rawIdea'', JStr (rawIdea f)),
      (js ''problem'', JStr (problem f)),
      (js ''model'', JStr (model f)),
      (js ''timeCommitment'', JStr (timeCommitment f)),
      (js ''outputTone'', JStr (outputTone f)),
      (js ''stageOfIdea'', JStr (stageOfIdea f)),
      (js ''timeHorizon'', JStr (timeHorizon f))]"

text \<open>The form of the specification's scenario, with the optional fields left empty.\<close>

definition bakery :: form where
  "bakery = \<lparr>businessName = [], city = js ''Paris'', country = js ''France'',
     targetAudience = [], budget = [], businessType = [], rawIdea = js ''organic bakery'',
     problem = [], model = js ''chatgpt-latest'', timeCommitment = js ''full-time'',
     outputTone = [], stageOfIdea = [], timeHorizon = []\<rparr>"

subsection \<open>Persistence of the form\<close>

text \<open>
  \<open>localStorage\<close> maps keys to strings; \<open>getItem\<close> of a key that is not there is \<open>null\<close>.
  \<open>setItem\<close> converts the value it is given to a string. The quota of the store is not
  modelled: \<open>setItem\<close> always succeeds.
\<close>

type_synonym storage = "jstring \<Rightarrow> jstring option"

definition setItem :: "storage \<Rightarrow> jstring \<Rightarrow> jsval \<Rightarrow> storage" where
  "setItem ls k v = ls(k \<mapsto> to_string_raw v)"

definition removeItem :: "storage \<Rightarrow> jstring \<Rightarrow> storage" where
  "removeItem ls k = ls(k := None)"

definition defaultFormData :: jsval where
  "defaultFormData = JObj
     [(js ''businessName'', JStr []),
      (js ''city'', JStr []),
      (js ''country'', JStr []),
      (js ''targetAudience'', JStr []),
      (js ''budget'', JStr []),
      (js ''businessType'', JStr []),
      (js ''rawIdea'', JStr []),
      (js ''problem'', JStr []),
      (js ''model'', JStr (js ''chatgpt-latest'')),
      (js ''timeCommitment'', JStr []),
      (js ''outputTone'', JStr []),
      (js ''stageOfIdea'', JStr []),
      (js ''timeHorizon'', JStr [])]"

definition loadSavedFormData :: "storage \<Rightarrow> jsval" where
  "loadSavedFormData ls =
     (case ls (js ''raw2ready_formData'') of
        None \<Rightarrow> defaultFormData
      | Some saved \<Rightarrow>
          (if saved \<noteq> [] then
             (case JSON_parse saved of
                Some parsed \<Rightarrow> parsed
              | None \<Rightarrow> defaultFormData)
           else defaultFormData))"

definition loadSavedTerms :: "storage \<Rightarrow> bool" where
  "loadSavedTerms ls = (ls (js ''raw2ready_termsAccepted'') = Some (js ''true''))"

record form_page =
  formData :: jsval
  termsAccepted :: bool
  errors :: field_errors
  isLoading :: bool
  apiError :: "jstring option"

definition initial_form_page :: "storage \<Rightarrow> form_page" where
  "initial_form_page ls =
     \<lparr>formData = loadSavedFormData ls, termsAccepted = loadSavedTerms ls, errors = [],
      isLoading = False, apiError = None\<rparr>"

text \<open>
  The own enumerable properties that \<open>{...v}\<close> copies: those of an object, the elements
  of an array and the characters of a string under their indices, none for the rest.
\<close>

definition index_keys :: "nat \<Rightarrow> jstring list" where
  "index_keys n = map (\<lambda>i. dec_digits (int i)) [0..<n]"

fun spread :: "jsval \<Rightarrow> (jstring \<times> jsval) list" where
  "spread (JObj kvs) = kvs"
| "spread (JArr xs) = zip (index_keys (length xs)) xs"
| "spread (JStr s) = zip (index_keys (length s)) (map (\<lambda>c. JStr [c]) s)"
| "spread v = []"

fun set_field :: "field_errors \<Rightarrow> jstring \<Rightarrow> jstring \<Rightarrow> field_errors" where
  "set_field [] k v = [(k, v)]"
| "set_field ((k', v') # kvs) k v =
     (if k' = k then (k, v) # kvs else (k', v') # set_field kvs k v)"

text \<open>
  \<open>handleChange\<close> on an input named \<open>name\<close> with the value \<open>value\<close>: the updated form is
  stored as JSON text, and the error shown for the field, if any, is cleared.
\<close>

definition handleChange :: "jstring \<Rightarrow> jstring \<Rightarrow> form_page \<times> storage \<Rightarrow> form_page \<times> storage" where
  "handleChange name val = (\<lambda>(st, ls).
     (let updated = JObj (set_key (spread (formData st)) name (JStr val));
          ls' = setItem ls (js ''raw2ready_formData'') (JSON_stringify updated);
          errors' = (case map_of (errors st) name of
                       Some m \<Rightarrow> if m \<noteq> [] then set_field (errors st) name [] else errors st
                     | None \<Rightarrow> errors st)
      in (st\<lparr>formData := updated, errors := errors'\<rparr>, ls')))"

subsection \<open>Submission\<close>

text \<open>
  What the page gets from \<open>fetch\<close>: a rejection (a TypeError, when no response is
  obtained) or a response, with its status and the outcome of \<open>response.json()\<close>, which
  is a value or the exception of a body that is not JSON.
\<close>

record http_response =
  status :: nat
  statusText :: jstring
  json :: "js_exn + jsval"

definition ok :: "http_response \<Rightarrow> bool" where
  "ok r = (200 \<le> status r \<and> status r \<le> 299)"

definition trimmed :: "jsval \<Rightarrow> string \<Rightarrow> js_exn + jstring" where
  "trimmed obj k = then_do (get_prop obj (js k)) str_trim"

text \<open>\<open>s || d\<close> for a string \<open>s\<close>.\<close>

definition str_or :: "jstring \<Rightarrow> jsval \<Rightarrow> jsval" where
  "str_or s d = (if s \<noteq> [] then JStr s else d)"

definition getModelSelection :: "jsval \<Rightarrow> js_exn + jstring" where
  "getModelSelection fd =
     then_do (get_prop fd (js ''model'')) (\<lambda>m.
       Inr (if m = JStr (js ''gemini'') then js ''google-gemini-flash'' else js ''chatgpt-latest''))"

definition requestBody :: "jsval \<Rightarrow> js_exn + jsval" where
  "requestBody fd =
     then_do (trimmed fd ''businessName'') (\<lambda>businessName_t.
     then_do (trimmed fd ''city'') (\<lambda>city_t.
     then_do (trimmed fd ''country'') (\<lambda>country_t.
     then_do (trimmed fd ''targetAudience'') (\<lambda>targetAudience_t.
     then_do (trimmed fd ''budget'') (\<lambda>budget_t.
     then_do (get_prop fd (js ''businessType'')) (\<lambda>businessType.
     then_do (trimmed fd ''rawIdea'') (\<lambda>rawIdea_t.
     then_do (trimmed fd ''problem'') (\<lambda>problem_t.
     then_do (getModelSelection fd) (\<lambda>model_selection.
     then_do (get_prop fd (js ''timeCommitment'')) (\<lambda>timeCommitment.
     then_do (get_prop fd (js ''outputTone'')) (\<lambda>outputTone.
     then_do (get_prop fd (js ''stageOfIdea'')) (\<lambda>stageOfIdea.
     then_do (get_prop fd (js ''timeHorizon'')) (\<lambda>timeHorizon.
       Inr (JObj
         [(js ''business_name'', str_or businessName_t (JStr (js ''My Business''))),
          (js ''location_city'', str_or city_t (JStr [])),
          (js ''country'', JStr country_t),
          (js ''target_audience'', str_or targetAudience_t JNull),
          (js ''budget'', str_or budget_t JNull),
          (js ''business_type'', or_else businessType JNull),
          (js ''raw_idea'', JStr rawIdea_t),
          (js ''problem'', str_or problem_t JNull),
          (js ''file_content'', JNull),
          (js ''photos_description'', JNull),
          (js ''model_selection'', JStr model_selection),
          (js ''time_commitment'', or_else timeCommitment JNull),
          (js ''output_tone'', or_else outputTone JNull),
          (js ''language'', JStr (js ''en'')),
          (js ''stage_of_idea'', or_else stageOfIdea JNull),
          (js ''time_horizon'', or_else timeHorizon JNull)]))))))))))))))"

text \<open>
  The name for the presentation: the suggested one when it is there and not blank, the
  typed one otherwise, the default when that is blank too.
\<close>

definition businessNameForPresentation :: "jsval \<Rightarrow> jsval \<Rightarrow> js_exn + jsval" where
  "businessNameForPresentation fd analysisData =
     then_do (get_prop analysisData (js ''suggested_business_name'')) (\<lambda>suggested.
     then_do (opt_trim suggested) (\<lambda>suggested_t.
       if truthy suggested_t then Inr suggested_t
       else then_do (trimmed fd ''businessName'') (\<lambda>businessName_t.
              Inr (str_or businessName_t (JStr (js ''My Business''))))))"

definition businessContext :: "jsval \<Rightarrow> jsval \<Rightarrow> js_exn + jsval" where
  "businessContext fd analysisData =
     then_do (businessNameForPresentation fd analysisData) (\<lambda>business_name.
     then_do (trimmed fd ''rawIdea'') (\<lambda>rawIdea_t.
     then_do (trimmed fd ''problem'') (\<lambda>problem_t.
     then_do (trimmed fd ''targetAudience'') (\<lambda>targetAudience_t.
     then_do (trimmed fd ''city'') (\<lambda>city_t.
     then_do (trimmed fd ''country'') (\<lambda>country_t.
     then_do (trimmed fd ''budget'') (\<lambda>budget_t.
     then_do (get_prop fd (js ''businessType'')) (\<lambda>businessType.
       Inr (JObj
         [(js ''business_name'', business_name),
          (js ''raw_idea'', JStr rawIdea_t),
          (js ''problem'', str_or problem_t JNull),
          (js ''target_audience'', str_or targetAudience_t JNull),
          (js ''location_city'', str_or city_t JNull),
          (js ''country'', str_or country_t JNull),
          (js ''budget'', str_or budget_t JNull),
          (js ''business_type'', or_else businessType JNull)])))))))))"

definition research_failed :: "nat \<Rightarrow> jstring" where
  "research_failed st = js ''Research failed ('' @ num_to_string (Fin (of_nat st)) @ js '')''"

text \<open>
  The part of the \<open>try\<close> block after \<open>fetch\<close> has answered: an exception, or the state
  that \<open>navigate\<close> is given.
\<close>

definition handle_response :: "jsval \<Rightarrow> http_response \<Rightarrow> js_exn + (jsval \<times> jsval)" where
  "handle_response fd r =
     (if \<not> ok r then
        (let errData = (case json r of Inl e \<Rightarrow> JObj [] | Inr v \<Rightarrow> v)
         in then_do (get_prop errData (js ''detail'')) (\<lambda>detail.
              Inl (throw_error (or_else detail (JStr (research_failed (status r)))))))
      else
        then_do (json r) (\<lambda>analysisData.
        then_do (businessContext fd analysisData) (\<lambda>context.
          Inr (analysisData, context))))"

definition server_unreachable :: jstring where
  "server_unreachable = js (''Could not reach the server. Make sure the backend is running '' @
     ''(e.g. uvicorn on port 8000) and you are using the dev server (npm run dev).'')"

definition catch_message :: "js_exn \<Rightarrow> jstring" where
  "catch_message err =
     (case err of
        TypeError \<Rightarrow> server_unreachable
      | OtherError m \<Rightarrow>
          (if m = js ''Failed to fetch'' then server_unreachable
           else if m \<noteq> [] then m
           else js ''Research failed. Please try again.''))"

text \<open>
  What \<open>handleSubmit\<close> does besides changing the state: the body given to \<open>fetch\<close> (before
  \<open>JSON.stringify\<close>), when a request is made, and the state given to \<open>navigate\<close>, when the
  page moves on to the results.
\<close>

record effects =
  request :: "jsval option"
  navigation :: "(jsval \<times> jsval) option"

definition handleSubmit ::
  "jstring list \<Rightarrow> js_exn + http_response \<Rightarrow> form_page \<Rightarrow> js_exn + (form_page \<times> effects)" where
  "handleSubmit countries net st =
     then_do (validateForm countries (formData st) (termsAccepted st)) (\<lambda>(valid, newErrors).
       if \<not> valid then
         Inr (st\<lparr>errors := newErrors\<rparr>, \<lparr>request = None, navigation = None\<rparr>)
       else
         (case requestBody (formData st) of
            Inl e \<Rightarrow>
              Inr (st\<lparr>errors := newErrors, isLoading := False, apiError := Some (catch_message e)\<rparr>,
                   \<lparr>request = None, navigation = None\<rparr>)
          | Inr body \<Rightarrow>
              (case then_do net (handle_response (formData st)) of
                 Inl e \<Rightarrow>
                   Inr (st\<lparr>errors := newErrors, isLoading := False,
                          apiError := Some (catch_message e)\<rparr>,
                        \<lparr>request = Some body, navigation = None\<rparr>)
               | Inr nav \<Rightarrow>
                   Inr (st\<lparr>errors := newErrors, isLoading := False, apiError := None\<rparr>,
                        \<lparr>request = Some body, navigation = Some nav\<rparr>))))"

section \<open>The API service (api.js)\<close>

fun sequence :: "('e + 'a) list \<Rightarrow> 'e + 'a list" where
  "sequence [] = Inr []"
| "sequence (m # ms) = then_do m (\<lambda>x. then_do (sequence ms) (\<lambda>xs. Inr (x # xs)))"

text \<open>\<open>e.msg || e.message || JSON.stringify(e)\<close>, for one element of the list of errors.\<close>

definition sub_error_text :: "jsval \<Rightarrow> js_exn + jsval" where
  "sub_error_text e =
     then_do (get_prop e (js ''msg'')) (\<lambda>msg.
       if truthy msg then Inr msg
       else then_do (get_prop e (js ''message'')) (\<lambda>message.
              if truthy message then Inr message else Inr (JSON_stringify e)))"

text \<open>An element of an array, as \<open>join\<close> prints it.\<close>

definition join_element :: "jsval \<Rightarrow> js_exn + jstring" where
  "join_element v = (if v = JUndefined \<or> v = JNull then Inr [] else to_string v)"

text \<open>The exception that \<open>analyzeBusiness\<close> throws on a response that is not ok.\<close>

definition analyze_failure :: "http_response \<Rightarrow> js_exn" where
  "analyze_failure r =
     (let errorData = (case json r of Inl e \<Rightarrow> JObj [] | Inr v \<Rightarrow> v);
          thrown =
            then_do (get_prop errorData (js ''detail'')) (\<lambda>detail.
            then_do (if truthy detail then Inr detail
                     else then_do (get_prop errorData (js ''message'')) (\<lambda>message.
                            Inr (or_else message (JStr (statusText r))))) (\<lambda>message.
              (case message of
                 JArr es \<Rightarrow>
                   then_do (sequence (map sub_error_text es)) (\<lambda>texts.
                   then_do (sequence (map join_element texts)) (\<lambda>parts.
                     Inl (throw_error (JStr (join_with (js ''; '') parts)))))
               | JStr m \<Rightarrow> Inl (throw_error (JStr m))
               | _ \<Rightarrow> Inl (throw_error (JSON_stringify message)))))
      in (case thrown of Inl e \<Rightarrow> e | Inr e \<Rightarrow> e))"

definition analyze_payload :: "jsval \<Rightarrow> js_exn + jsval" where
  "analyze_payload fd =
     then_do (get_prop fd (js ''businessName'')) (\<lambda>businessName.
     then_do (get_prop fd (js ''city'')) (\<lambda>city.
     then_do (get_prop fd (js ''country'')) (\<lambda>country.
     then_do (get_prop fd (js ''targetAudience'')) (\<lambda>targetAudience.
     then_do (get_prop fd (js ''budget'')) (\<lambda>budget.
     then_do (get_prop fd (js ''businessType'')) (\<lambda>businessType.
     then_do (get_prop fd (js ''rawIdea'')) (\<lambda>rawIdea.
     then_do (get_prop fd (js ''problem'')) (\<lambda>problem.
     then_do (get_prop fd (js ''model'')) (\<lambda>model.
     then_do (get_prop fd (js ''timeCommitment'')) (\<lambda>timeCommitment.
     then_do (get_prop fd (js ''outputTone'')) (\<lambda>outputTone.
     then_do (get_prop fd (js ''language'')) (\<lambda>language.
     then_do (get_prop fd (js ''stageOfIdea'')) (\<lambda>stageOfIdea.
     then_do (get_prop fd (js ''timeHorizon'')) (\<lambda>timeHorizon.
     then_do (get_prop fd (js ''file_content'')) (\<lambda>file_content.
     then_do (get_prop fd (js ''photos_description'')) (\<lambda>photos_description.
       Inr (JObj
         [(js ''business_name'', or_else businessName (JStr (js ''My Business''))),
          (js ''location_city'', city),
          (js ''country'', country),
          (js ''target_audience'', or_else targetAudience JNull),
          (js ''budget'', or_else budget JNull),
          (js ''business_type'', or_else businessType JNull),
          (js ''raw_idea'', rawIdea),
          (js ''problem'', or_else problem JNull),
          (js ''model_selection'', model),
          (js ''time_commitment'', or_else timeCommitment JNull),
          (js ''output_tone'', or_else outputTone JNull),
          (js ''language'', or_else language JNull),
          (js ''stage_of_idea'', or_else stageOfIdea JNull),
          (js ''time_horizon'', or_else timeHorizon JNull),
          (js ''file_content'', or_else file_content JNull),
          (js ''photos_description'', or_else photos_description JNull)])))))))))))))))))"

text \<open>\<open>analyzeBusiness\<close>: the payload it posts, when it gets so far, and what it returns or throws.\<close>

definition analyzeBusiness :: "jsval \<Rightarrow> js_exn + http_response \<Rightarrow> jsval option \<times> (js_exn + jsval)" where
  "analyzeBusiness fd net =
     (case analyze_payload fd of
        Inl e \<Rightarrow> (None, Inl e)
      | Inr payload \<Rightarrow>
          (Some payload,
           then_do net (\<lambda>r. if \<not> ok r then Inl (analyze_failure r) else json r)))"

section \<open>The presentation and video stage (PresentationPage.jsx)\<close>

subsection \<open>State and its loaders\<close>

definition defaultPptFormData :: jsval where
  "defaultPptFormData = JObj [(js ''numberOfSlides'', JStr (js ''10'')), (js ''timeRequired'', JStr (js ''5''))]"

definition loadSavedPptData :: "storage \<Rightarrow> jsval" where
  "loadSavedPptData ls =
     (case ls (js ''raw2ready_pptFormData'') of
        None \<Rightarrow> defaultPptFormData
      | Some saved \<Rightarrow>
          (if saved \<noteq> [] then
             (case JSON_parse saved of
                Some parsed \<Rightarrow> parsed
              | None \<Rightarrow> defaultPptFormData)
           else defaultPptFormData))"

definition loadSavedPresentation :: "storage \<Rightarrow> jsval" where
  "loadSavedPresentation ls =
     (case ls (js ''raw2ready_presentation'') of
        None \<Rightarrow> JNull
      | Some saved \<Rightarrow>
          (if saved \<noteq> [] then
             (case JSON_parse saved of
                Some parsed \<Rightarrow> parsed
              | None \<Rightarrow> JNull)
           else JNull))"

definition loadSavedSlide :: "storage \<Rightarrow> jsnum" where
  "loadSavedSlide ls =
     (case ls (js ''raw2ready_currentSlide'') of
        None \<Rightarrow> Fin 0
      | Some saved \<Rightarrow> (if saved \<noteq> [] then parseInt10 saved else Fin 0))"

definition defaultVideoFormData :: jsval where
  "defaultVideoFormData = JObj [(js ''timeRequired'', JStr []), (js ''prompt'', JStr [])]"

definition loadSavedVideoData :: "storage \<Rightarrow> jsval" where
  "loadSavedVideoData ls =
     (case ls (js ''raw2ready_videoFormData'') of
        None \<Rightarrow> defaultVideoFormData
      | Some saved \<Rightarrow>
          (if saved \<noteq> [] then
             (case JSON_parse saved of
                Some parsed \<Rightarrow> parsed
              | None \<Rightarrow> defaultVideoFormData)
           else defaultVideoFormData))"

definition loadSavedVideo :: "storage \<Rightarrow> jsval" where
  "loadSavedVideo ls =
     (case ls (js ''raw2ready_generatedVideo'') of
        None \<Rightarrow> JNull
      | Some saved \<Rightarrow>
          (if saved \<noteq> [] then
             (case JSON_parse saved of
                Some parsed \<Rightarrow> parsed
              | None \<Rightarrow> JNull)
           else JNull))"

text \<open>
  The state of the component. \<open>businessCtx\<close> is the component's \<open>businessContext\<close>, the one
  that came with the navigation or the empty object.
\<close>

record presentation_page =
  businessCtx :: jsval
  activeCard :: "jstring option"
  pptFormData :: jsval
  pptErrors :: field_errors
  isPptLoading :: bool
  presentation :: jsval
  currentSlide :: jsnum
  editPrompt :: jstring
  isEditing :: bool
  pptError :: "jstring option"
  videoFormData :: jsval
  videoErrors :: field_errors
  isVideoLoading :: bool
  generatedVideo :: jsval
  videoError :: "jstring option"

definition initial_presentation_page :: "jsval \<Rightarrow> storage \<Rightarrow> presentation_page" where
  "initial_presentation_page navigated_context ls =
     \<lparr>businessCtx = or_else navigated_context (JObj []), activeCard = None,
      pptFormData = loadSavedPptData ls, pptErrors = [], isPptLoading = False,
      presentation = loadSavedPresentation ls, currentSlide = loadSavedSlide ls,
      editPrompt = [], isEditing = False, pptError = None,
      videoFormData = loadSavedVideoData ls, videoErrors = [], isVideoLoading = False,
      generatedVideo = loadSavedVideo ls, videoError = None\<rparr>"

subsection \<open>Generation of the slide deck\<close>

definition parseInt_val :: "jsval \<Rightarrow> js_exn + jsnum" where
  "parseInt_val v = then_do (to_string v) (\<lambda>s. Inr (parseInt s))"

definition parseFloat_val :: "jsval \<Rightarrow> js_exn + jsnum" where
  "parseFloat_val v = then_do (to_string v) (\<lambda>s. Inr (parseFloat s))"

text \<open>
  The two tests of \<open>validatePptForm\<close>:
  \<open>!v.trim() || isNaN(v) || parseInt(v) < 5 || parseInt(v) > 15\<close> and the same with
  \<open>parseFloat\<close>, 3 and 15.
\<close>

definition slides_rejected :: "jsval \<Rightarrow> js_exn + bool" where
  "slides_rejected v =
     then_do (str_trim v) (\<lambda>t.
       if t = [] then Inr True
       else then_do (isNaN v) (\<lambda>nan.
              if nan then Inr True
              else then_do (parseInt_val v) (\<lambda>n.
                     Inr (num_less n (Fin 5) \<or> num_less (Fin 15) n))))"

definition minutes_rejected :: "jsval \<Rightarrow> js_exn + bool" where
  "minutes_rejected v =
     then_do (str_trim v) (\<lambda>t.
       if t = [] then Inr True
       else then_do (isNaN v) (\<lambda>nan.
              if nan then Inr True
              else then_do (parseFloat_val v) (\<lambda>x.
                     Inr (num_less x (Fin 3) \<or> num_less (Fin 15) x))))"

definition validatePptForm :: "jsval \<Rightarrow> js_exn + (bool \<times> field_errors)" where
  "validatePptForm pf =
     then_do (get_prop pf (js ''numberOfSlides'')) (\<lambda>numberOfSlides.
     then_do (slides_rejected numberOfSlides) (\<lambda>bad_slides.
     then_do (get_prop pf (js ''timeRequired'')) (\<lambda>timeRequired.
     then_do (minutes_rejected timeRequired) (\<lambda>bad_minutes.
       (let newErrors =
           (if bad_slides
              then [(js ''numberOfSlides'', js ''Please enter a number between 5 and 15'')] else [])
         @ (if bad_minutes
              then [(js ''timeRequired'', js ''Please enter a time between 3 and 15 minutes'')] else [])
        in Inr (newErrors = [], newErrors))))))"

definition generate_requestBody :: "jsval \<Rightarrow> jsval \<Rightarrow> js_exn + jsval" where
  "generate_requestBody ctx pf =
     then_do (get_prop ctx (js ''business_name'')) (\<lambda>business_name.
     then_do (get_prop ctx (js ''raw_idea'')) (\<lambda>raw_idea.
     then_do (get_prop ctx (js ''tagline'')) (\<lambda>tagline.
     then_do (get_prop ctx (js ''problem'')) (\<lambda>problem.
     then_do (get_prop ctx (js ''target_audience'')) (\<lambda>target_audience.
     then_do (get_prop ctx (js ''location_city'')) (\<lambda>location_city.
     then_do (get_prop ctx (js ''country'')) (\<lambda>country.
     then_do (get_prop ctx (js ''budget'')) (\<lambda>budget.
     then_do (get_prop ctx (js ''business_type'')) (\<lambda>business_type.
     then_do (get_prop ctx (js ''competing_players'')) (\<lambda>competing_players.
     then_do (get_prop ctx (js ''market_cap_or_target_revenue'')) (\<lambda>market_cap.
     then_do (get_prop ctx (js ''undiscovered_addons'')) (\<lambda>undiscovered_addons.
     then_do (then_do (get_prop pf (js ''numberOfSlides'')) parseInt_val) (\<lambda>num_slides.
     then_do (then_do (get_prop pf (js ''timeRequired'')) parseInt_val) (\<lambda>duration_minutes.
       Inr (JObj
         [(js ''business_name'', or_else business_name (JStr (js ''My Business''))),
          (js ''raw_idea'', or_else raw_idea (JStr (js ''A business idea''))),
          (js ''tagline'', or_else tagline JNull),
          (js ''problem'', or_else problem JNull),
          (js ''target_audience'', or_else target_audience JNull),
          (js ''location_city'', or_else location_city JNull),
          (js ''country'', or_else country JNull),
          (js ''budget'', or_else budget JNull),
          (js ''business_type'', or_else business_type JNull),
          (js ''competing_players'', or_else competing_players JNull),
          (js ''market_cap_or_target_revenue'', or_else market_cap JNull),
          (js ''undiscovered_addons'', or_else undiscovered_addons JNull),
          (js ''num_slides'', JNum num_slides),
          (js ''duration_minutes'', JNum duration_minutes)])))))))))))))))"

text \<open>
  After \<open>fetch\<close> has answered, in the three handlers of this page: the data of an ok
  response, or the exception thrown, \<open>new Error(errorData.detail || fallback)\<close> on a
  response that is not ok.
\<close>

definition response_data :: "jstring \<Rightarrow> http_response \<Rightarrow> js_exn + jsval" where
  "response_data fallback r =
     (if \<not> ok r then
        then_do (json r) (\<lambda>errorData.
        then_do (get_prop errorData (js ''detail'')) (\<lambda>detail.
          Inl (throw_error (or_else detail (JStr fallback)))))
      else json r)"

definition is_network_error :: "js_exn \<Rightarrow> bool" where
  "is_network_error err = (case err of TypeError \<Rightarrow> True | OtherError m \<Rightarrow> m = js ''Failed to fetch'')"

definition error_message :: "js_exn \<Rightarrow> jstring" where
  "error_message err = (case err of TypeError \<Rightarrow> [] | OtherError m \<Rightarrow> m)"

definition unreachable_dev :: jstring where
  "unreachable_dev = js (''Could not reach the server. Make sure the backend is running '' @
     ''(port 8000) and you are using the dev server (npm run dev).'')"

definition unreachable_plain :: jstring where
  "unreachable_plain = js ''Could not reach the server. Make sure the backend is running (port 8000).''"

text \<open>
  The message that the \<open>catch\<close> blocks of this page show. The message of a TypeError is
  never read, since the test on the name comes out true.
\<close>

definition caught :: "jstring \<Rightarrow> js_exn \<Rightarrow> jstring" where
  "caught unreachable err = (if is_network_error err then unreachable else error_message err)"

definition handleCreatePresentation ::
  "js_exn + http_response \<Rightarrow> presentation_page \<times> storage \<Rightarrow>
     js_exn + (presentation_page \<times> storage \<times> jsval option)" where
  "handleCreatePresentation net = (\<lambda>(st, ls).
     then_do (validatePptForm (pptFormData st)) (\<lambda>(valid, newErrors).
       if \<not> valid then Inr (st\<lparr>pptErrors := newErrors\<rparr>, ls, None)
       else
         (case generate_requestBody (businessCtx st) (pptFormData st) of
            Inl e \<Rightarrow>
              Inr (st\<lparr>pptErrors := newErrors, isPptLoading := False,
                     pptError := Some (caught unreachable_dev e)\<rparr>, ls, None)
          | Inr body \<Rightarrow>
              (case then_do net (response_data (js ''Failed to generate presentation'')) of
                 Inl e \<Rightarrow>
                   Inr (st\<lparr>pptErrors := newErrors, isPptLoading := False,
                          pptError := Some (caught unreachable_dev e)\<rparr>, ls, Some body)
               | Inr data \<Rightarrow>
                   Inr (st\<lparr>pptErrors := newErrors, isPptLoading := False, pptError := None,
                          presentation := data, currentSlide := Fin 0\<rparr>,
                        setItem (setItem ls (js ''raw2ready_presentation'') (JSON_stringify data))
                          (js ''raw2ready_currentSlide'') (JStr (js ''0'')),
                        Some body)))))"

subsection \<open>Editing and leaving the deck\<close>

definition handleEditPresentation ::
  "js_exn + http_response \<Rightarrow> presentation_page \<times> storage \<Rightarrow>
     js_exn + (presentation_page \<times> storage \<times> jsval option)" where
  "handleEditPresentation net = (\<lambda>(st, ls).
     if trim (editPrompt st) = [] \<or> \<not> truthy (presentation st) then Inr (st, ls, None)
     else
       (case get_prop (presentation st) (js ''slides'') of
          Inl e \<Rightarrow>
            Inr (st\<lparr>isEditing := False, pptError := Some (caught unreachable_plain e)\<rparr>, ls, None)
        | Inr slides \<Rightarrow>
            (let body = JObj [(js ''current_presentation'', slides),
                              (js ''edit_request'', JStr (editPrompt st)),
                              (js ''business_context'', businessCtx st)]
             in case then_do net (response_data (js ''Failed to edit presentation'')) of
                  Inl e \<Rightarrow>
                    Inr (st\<lparr>isEditing := False, pptError := Some (caught unreachable_plain e)\<rparr>,
                         ls, Some body)
                | Inr data \<Rightarrow>
                    Inr (st\<lparr>isEditing := False, pptError := None, presentation := data,
                           editPrompt := []\<rparr>,
                         setItem ls (js ''raw2ready_presentation'') (JSON_stringify data),
                         Some body))))"

definition handleBackToCardSelection :: "presentation_page \<times> storage \<Rightarrow> presentation_page \<times> storage" where
  "handleBackToCardSelection = (\<lambda>(st, ls).
     (st\<lparr>presentation := JNull, currentSlide := Fin 0, activeCard := None\<rparr>,
      removeItem (removeItem ls (js ''raw2ready_presentation'')) (js ''raw2ready_currentSlide'')))"

text \<open>The button "Start Over with New Settings".\<close>

definition startOver :: "presentation_page \<times> storage \<Rightarrow> presentation_page \<times> storage" where
  "startOver = (\<lambda>(st, ls).
     (st\<lparr>presentation := JNull, currentSlide := Fin 0, activeCard := Some (js ''ppt'')\<rparr>,
      removeItem (removeItem ls (js ''raw2ready_presentation'')) (js ''raw2ready_currentSlide'')))"

subsection \<open>Slide navigation\<close>

definition goToSlide :: "jsnum \<Rightarrow> presentation_page \<times> storage \<Rightarrow> presentation_page \<times> storage" where
  "goToSlide index = (\<lambda>(st, ls).
     (st\<lparr>currentSlide := index\<rparr>,
      setItem ls (js ''raw2ready_currentSlide'') (JStr (num_to_string index))))"

text \<open>\<open>presentation.slides.length\<close>, as a number.\<close>

definition slides_length :: "jsval \<Rightarrow> js_exn + jsnum" where
  "slides_length p =
     then_do (get_prop p (js ''slides'')) (\<lambda>slides.
     then_do (get_prop slides (js ''length'')) to_number)"

definition nextSlide :: "presentation_page \<times> storage \<Rightarrow> js_exn + (presentation_page \<times> storage)" where
  "nextSlide = (\<lambda>(st, ls).
     if \<not> truthy (presentation st) then Inr (st, ls)
     else then_do (slides_length (presentation st)) (\<lambda>n.
       if num_less (currentSlide st) (num_sub n (Fin 1)) then
         (let newSlide = num_add (currentSlide st) (Fin 1)
          in Inr (st\<lparr>currentSlide := newSlide\<rparr>,
                  setItem ls (js ''raw2ready_currentSlide'') (JStr (num_to_string newSlide))))
       else Inr (st, ls)))"

definition prevSlide :: "presentation_page \<times> storage \<Rightarrow> presentation_page \<times> storage" where
  "prevSlide = (\<lambda>(st, ls).
     if num_less (Fin 0) (currentSlide st) then
       (let newSlide = num_sub (currentSlide st) (Fin 1)
        in (st\<lparr>currentSlide := newSlide\<rparr>,
            setItem ls (js ''raw2ready_currentSlide'') (JStr (num_to_string newSlide))))
     else (st, ls))"

text \<open>
  The viewer reads \<open>presentation.slides[currentSlide]\<close> and then the fields of that
  slide, \<open>slide_number\<close> first: nothing is rendered without slides, and the read of
  \<open>slide_number\<close> throws when there is no slide under the index. The title and the
  subtitle are read next, and \<open>slide.content.map\<close> is called, which throws unless \<open>content\<close> is a list (a value read from JSON has no
  method \<open>map\<close> otherwise). The result is the slide number shown; what React makes of
  the values it is handed is outside this model.
\<close>

definition renderPresentationViewer :: "presentation_page \<Rightarrow> js_exn + jsval option" where
  "renderPresentationViewer st =
     (if \<not> truthy (presentation st) then Inr None
      else then_do (get_prop (presentation st) (js ''slides'')) (\<lambda>slides.
        if \<not> truthy slides then Inr None
        else then_do (get_prop slides (js ''length'')) (\<lambda>len.
          if len = JNum (Fin 0) then Inr None
          else then_do (get_prop slides (num_to_string (currentSlide st))) (\<lambda>slide.
               then_do (get_prop slide (js ''slide_number'')) (\<lambda>slide_number.
               then_do (get_prop slide (js ''title'')) (\<lambda>title.
               then_do (get_prop slide (js ''subtitle'')) (\<lambda>subtitle.
               then_do (get_prop slide (js ''content'')) (\<lambda>content.
                 case content of
                   JArr points \<Rightarrow> Inr (Some slide_number)
                 | _ \<Rightarrow> Inl TypeError))))))))"

subsection \<open>Generation of the video\<close>

definition seconds_message :: jstring where
  "seconds_message = js ''Please enter a valid time in seconds (6'' @ [0x2013] @ js ''10)''"

definition validateVideoForm :: "jsval \<Rightarrow> js_exn + (bool \<times> field_errors)" where
  "validateVideoForm vf =
     then_do (get_prop vf (js ''timeRequired'')) (\<lambda>timeRequired.
     then_do (str_trim timeRequired) (\<lambda>time_t.
     then_do (if time_t = [] then Inr [(js ''timeRequired'', js ''Time required is mandatory'')]
              else then_do (isNaN timeRequired) (\<lambda>nan.
                   then_do (if nan then Inr True
                            else then_do (parseFloat_val timeRequired) (\<lambda>x.
                                   Inr (num_less x (Fin 6) \<or> num_less (Fin 10) x))) (\<lambda>bad.
                     Inr (if bad then [(js ''timeRequired'', seconds_message)] else [])))) (\<lambda>time_errors.
     then_do (then_do (get_prop vf (js ''prompt'')) str_trim) (\<lambda>prompt_t.
       (let newErrors = time_errors
              @ (if prompt_t = [] then [(js ''prompt'', js ''Video prompt is required'')] else [])
        in Inr (newErrors = [], newErrors))))))"

text \<open>\<open>businessContext?.k?.trim() || null\<close>.\<close>

definition context_text :: "jsval \<Rightarrow> string \<Rightarrow> js_exn + jsval" where
  "context_text ctx k =
     (if ctx = JUndefined \<or> ctx = JNull then Inr JNull
      else then_do (get_prop ctx (js k)) (\<lambda>v.
           then_do (opt_trim v) (\<lambda>t. Inr (or_else t JNull))))"

definition video_requestBody :: "jsval \<Rightarrow> jsval \<Rightarrow> js_exn + jsval" where
  "video_requestBody ctx vf =
     then_do (then_do (get_prop vf (js ''timeRequired'')) parseFloat_val) (\<lambda>seconds.
     then_do (then_do (get_prop vf (js ''prompt'')) str_trim) (\<lambda>prompt_t.
     then_do (context_text ctx ''business_name'') (\<lambda>business_name.
     then_do (context_text ctx ''raw_idea'') (\<lambda>raw_idea.
     then_do (context_text ctx ''problem'') (\<lambda>problem.
     then_do (context_text ctx ''target_audience'') (\<lambda>target_audience.
     then_do (context_text ctx ''location_city'') (\<lambda>location_city.
     then_do (context_text ctx ''country'') (\<lambda>country.
       Inr (JObj
         [(js ''time'', JNum (num_div_by seconds 60)),
          (js ''prompt'', JStr prompt_t),
          (js ''business_name'', business_name),
          (js ''raw_idea'', raw_idea),
          (js ''problem'', problem),
          (js ''target_audience'', target_audience),
          (js ''location_city'', location_city),
          (js ''country'', country)])))))))))"

definition handleGenerateVideo ::
  "js_exn + http_response \<Rightarrow> presentation_page \<times> storage \<Rightarrow>
     js_exn + (presentation_page \<times> storage \<times> jsval option)" where
  "handleGenerateVideo net = (\<lambda>(st, ls).
     then_do (validateVideoForm (videoFormData st)) (\<lambda>(valid, newErrors).
       if \<not> valid then Inr (st\<lparr>videoErrors := newErrors\<rparr>, ls, None)
       else
         (case video_requestBody (businessCtx st) (videoFormData st) of
            Inl e \<Rightarrow>
              Inr (st\<lparr>videoErrors := newErrors, isVideoLoading := False,
                     videoError := Some (caught unreachable_dev e)\<rparr>, ls, None)
          | Inr body \<Rightarrow>
              (case then_do net (response_data (js ''Failed to generate video'')) of
                 Inl e \<Rightarrow>
                   Inr (st\<lparr>videoErrors := newErrors, isVideoLoading := False,
                          videoError := Some (caught unreachable_dev e)\<rparr>, ls, Some body)
               | Inr data \<Rightarrow>
                   Inr (st\<lparr>videoErrors := newErrors, isVideoLoading := False, videoError := None,
                          generatedVideo := data\<rparr>,
                        setItem ls (js ''raw2ready_generatedVideo'') (JSON_stringify data),
                        Some body)))))"

section \<open>Observations on a submission\<close>

text \<open>
  What a run of \<open>handleSubmit\<close> sent under a key of the request body, what it gave to
  \<open>navigate\<close>, what the business context holds under a key, and the message it shows.
\<close>

definition sent_field :: "jstring \<Rightarrow> js_exn + (form_page \<times> effects) \<Rightarrow> jsval option" where
  "sent_field k res =
     (case res of
        Inl e \<Rightarrow> None
      | Inr (st, eff) \<Rightarrow>
          (case request eff of
             None \<Rightarrow> None
           | Some body \<Rightarrow> (case get_prop body k of Inl e \<Rightarrow> None | Inr v \<Rightarrow> Some v)))"

definition navigated :: "js_exn + (form_page \<times> effects) \<Rightarrow> (jsval \<times> jsval) option" where
  "navigated res = (case res of Inl e \<Rightarrow> None | Inr (st, eff) \<Rightarrow> navigation eff)"

definition context_field :: "jstring \<Rightarrow> js_exn + (form_page \<times> effects) \<Rightarrow> jsval option" where
  "context_field k res =
     (case navigated res of
        None \<Rightarrow> None
      | Some (analysisData, context) \<Rightarrow>
          (case get_prop context k of Inl e \<Rightarrow> None | Inr v \<Rightarrow> Some v))"

definition shown_error :: "js_exn + (form_page \<times> effects) \<Rightarrow> jstring option" where
  "shown_error res = (case res of Inl e \<Rightarrow> None | Inr (st, eff) \<Rightarrow> apiError st)"

definition page_of :: "form \<Rightarrow> bool \<Rightarrow> form_page" where
  "page_of f t = \<lparr>formData = form_obj f, termsAccepted = t, errors = [], isLoading = False,
     apiError = None\<rparr>"

definition typed_name :: "form \<Rightarrow> jstring" where
  "typed_name f = (if blank (businessName f) then js ''My Business'' else trim (businessName f))"

text \<open>The fields of the request that the interface marks optional.\<close>

definition optional_fields :: "jstring list" where
  "optional_fields = [js ''target_audience'', js ''budget'', js ''business_type'', js ''problem'',
     js ''file_content'', js ''photos_description'', js ''time_commitment'', js ''output_tone'',
     js ''language'', js ''stage_of_idea'', js ''time_horizon'']"

definition text_or_null :: "jstring \<Rightarrow> jsval" where
  "text_or_null s = (if blank s then JNull else JStr (trim s))"

definition choice_or_null :: "jstring \<Rightarrow> jsval" where
  "choice_or_null s = (if s = [] then JNull else JStr s)"

definition ok_response :: "jsval \<Rightarrow> http_response" where
  "ok_response v = \<lparr>status = 200, statusText = js ''OK'', json = Inr v\<rparr>"

text \<open>
  The response of the backend to a request that fails its validation: status 422 and a
  list of sub-errors under \<open>detail\<close>.
\<close>

definition field_required :: jsval where
  "field_required = JObj
     [(js ''detail'', JArr [JObj
        [(js ''loc'', JArr [JStr (js ''body''), JStr (js ''country'')]),
         (js ''msg'', JStr (js ''field required'')),
         (js ''type'', JStr (js ''value_error.missing''))]])]"

definition unprocessable :: http_response where
  "unprocessable = \<lparr>status = 422, statusText = js ''Unprocessable Entity'', json = Inr field_required\<rparr>"

section \<open>Observations on the presentation page\<close>

text \<open>A Number that is finite and lies between two bounds.\<close>

definition in_range :: "rat \<Rightarrow> rat \<Rightarrow> jsnum \<Rightarrow> bool" where
  "in_range lo hi x = (case x of Fin q \<Rightarrow> lo \<le> q \<and> q \<le> hi | _ \<Rightarrow> False)"

definition ppt_obj :: "jstring \<Rightarrow> jstring \<Rightarrow> jsval" where
  "ppt_obj n t = JObj [(js ''numberOfSlides'', JStr n), (js ''timeRequired'', JStr t)]"

definition video_obj :: "jstring \<Rightarrow> jstring \<Rightarrow> jsval" where
  "video_obj t p = JObj [(js ''timeRequired'', JStr t), (js ''prompt'', JStr p)]"

text \<open>
  Of a run of one of the three handlers that call the backend: the body of the request,
  when one is made, and the state of the page afterwards.
\<close>

definition request_made ::
  "js_exn + (presentation_page \<times> storage \<times> jsval option) \<Rightarrow> jsval option" where
  "request_made res = (case res of Inl e \<Rightarrow> None | Inr (st, ls, req) \<Rightarrow> req)"

definition page_after ::
  "js_exn + (presentation_page \<times> storage \<times> jsval option) \<Rightarrow> presentation_page option" where
  "page_after res = (case res of Inl e \<Rightarrow> None | Inr (st, ls, req) \<Rightarrow> Some st)"

definition ppt_errors_after ::
  "js_exn + (presentation_page \<times> storage \<times> jsval option) \<Rightarrow> field_errors" where
  "ppt_errors_after res = (case res of Inl e \<Rightarrow> [] | Inr (st, ls, req) \<Rightarrow> pptErrors st)"

definition video_errors_after ::
  "js_exn + (presentation_page \<times> storage \<times> jsval option) \<Rightarrow> field_errors" where
  "video_errors_after res = (case res of Inl e \<Rightarrow> [] | Inr (st, ls, req) \<Rightarrow> videoErrors st)"

text \<open>The page as it starts on an empty store, with the given texts in one of its forms.\<close>

definition ppt_page :: "jstring \<Rightarrow> jstring \<Rightarrow> presentation_page" where
  "ppt_page n t = (initial_presentation_page JUndefined (\<lambda>k. None))\<lparr>pptFormData := ppt_obj n t\<rparr>"

definition video_page :: "jstring \<Rightarrow> jstring \<Rightarrow> presentation_page" where
  "video_page t p = (initial_presentation_page JUndefined (\<lambda>k. None))\<lparr>videoFormData := video_obj t p\<rparr>"

definition slides_fine :: "jstring \<Rightarrow> bool" where
  "slides_fine n = (string_to_number n \<noteq> NaN \<and> in_range 5 15 (parseInt n))"

definition minutes_fine :: "jstring \<Rightarrow> bool" where
  "minutes_fine t = (\<not> blank t \<and> string_to_number t \<noteq> NaN \<and> in_range 3 15 (parseFloat t))"

section \<open>Decks for the examples\<close>

definition slide :: "int \<Rightarrow> jsval" where
  "slide k = JObj [(js ''slide_number'', JNum (Fin (of_int k))), (js ''title'', JStr (js ''Slide'')),
     (js ''content'', JArr [])]"

definition deck :: "int list \<Rightarrow> jsval" where
  "deck ks = JObj [(js ''presentation_title'', JStr (js ''Pitch'')),
     (js ''total_duration_minutes'', JNum (Fin 5)), (js ''slides'', JArr (map slide ks))]"

text \<open>
  The viewer on a deck of ten slides, on the first slide, with a request for a change typed
  in; and the answer of the backend to that request, a deck of five slides.
\<close>

definition viewing_ten :: presentation_page where
  "viewing_ten = (initial_presentation_page JUndefined (\<lambda>k. None))
     \<lparr>presentation := deck [1, 2, 3, 4, 5, 6, 7, 8, 9, 10], editPrompt := js ''make it shorter''\<rparr>"

definition five_slides :: "js_exn + http_response" where
  "five_slides = Inr (ok_response (deck [1, 2, 3, 4, 5]))"

definition after_edit :: presentation_page where
  "after_edit = viewing_ten\<lparr>currentSlide := Fin 9, presentation := deck [1, 2, 3, 4, 5],
     editPrompt := [], isEditing := False, pptError := None\<rparr>"

section \<open>Observations on the store\<close>



section \<open>Forms of string fields\<close>

text \<open>
  An object whose properties, in their order, have the given names and hold the given
  strings: the form of the form stage is one, and stays one under \<open>handleChange\<close>.
\<close>

definition string_object :: "(jstring \<times> jstring) list \<Rightarrow> jsval" where
  "string_object kvs = JObj (map (\<lambda>kv. (fst kv, JStr (snd kv))) kvs)"

definition default_fields :: "(jstring \<times> jstring) list" where
  "default_fields =
     [(js ''businessName'', []), (js ''city'', []), (js ''country'', []),
      (js ''targetAudience'', []), (js ''budget'', []), (js ''businessType'', []),
      (js ''rawIdea'', []), (js ''problem'', []), (js ''model'', js ''chatgpt-latest''),
      (js ''timeCommitment'', []), (js ''outputTone'', []), (js ''stageOfIdea'', []),
      (js ''timeHorizon'', [])]"

text \<open>The tokens of the members of such an object in JSON text.\<close>

fun member_tokens :: "(jstring \<times> jstring) list \<Rightarrow> token list" where
  "member_tokens [] = []"
| "member_tokens [kv] = [TStr (fst kv), TColon, TStr (snd kv)]"
| "member_tokens (kv # kv' # kvs) =
     TStr (fst kv) # TColon # TStr (snd kv) # TComma # member_tokens (kv' # kvs)"

section \<open>Strings: basic facts\<close>

lemma of_char_lt: "(of_char c :: nat) < 256"
proof -
  have "(of_char c :: nat) mod 256 < 256" by (rule mod_less_divisor) simp
  then show ?thesis by simp
qed
lemma unat_of_char: "unat (of_char c :: 16 word) = of_char c"
proof -
  have "(of_char c :: 16 word) = of_nat (of_char c)"
    by (simp only: of_nat_of_char)
  moreover have "(of_char c :: nat) < 65536"
    using of_char_lt [of c] by linarith
  ultimately show ?thesis
    by (simp add: unat_of_nat)
qed

lemma of_char_word_eq_iff: "(of_char c :: 16 word) = of_char d \<longleftrightarrow> c = d"
proof
  assume "(of_char c :: 16 word) = of_char d"
  then have "unat (of_char c :: 16 word) = unat (of_char d :: 16 word)" by simp
  then have "(of_char c :: nat) = of_char d" by (simp only: unat_of_char)
  then show "c = d" by simp
qed simp

lemma js_eq_iff: "js a = js b \<longleftrightarrow> a = b"
proof -
  have "inj (of_char :: char \<Rightarrow> 16 word)"
    by (rule injI) (simp only: of_char_word_eq_iff)
  then show ?thesis unfolding js_def by (rule inj_map_eq_map)
qed


lemma js_Nil_iff: "js a = [] \<longleftrightarrow> a = []"
  by (simp add: js_def)

lemma js_Nil: "js [] = []"
  by (simp add: js_def)

lemma blank_iff: "blank s \<longleftrightarrow> list_all is_ws s"
proof -
  let ?d = "dropWhile is_ws s"
  have a: "trim s = [] \<longleftrightarrow> (\<forall>x\<in>set ?d. is_ws x)"
    unfolding trim_def trimEnd_def trimStart_def
    by (simp only: rev_is_Nil_conv dropWhile_eq_Nil_conv set_rev)
  have b: "(\<forall>x\<in>set ?d. is_ws x) \<longleftrightarrow> ?d = []"
  proof
    assume h: "\<forall>x\<in>set ?d. is_ws x"
    show "?d = []"
    proof (rule ccontr)
      assume n: "?d \<noteq> []"
      then have "\<not> is_ws (hd ?d)" by (rule hd_dropWhile)
      moreover have "hd ?d \<in> set ?d" using n by (rule hd_in_set)
      ultimately show False using h by blast
    qed
  next
    assume "?d = []"
    then show "\<forall>x\<in>set ?d. is_ws x" by (simp del: dropWhile_eq_Nil_conv)
  qed
  show ?thesis
    unfolding blank_def by (simp only: a b dropWhile_eq_Nil_conv list_all_iff)
qed

lemma blank_Nil: "blank []"
  by (simp add: blank_iff)

section \<open>Validation of the form\<close>

lemma then_do_simps: "then_do (Inl e) f = Inl e" "then_do (Inr x) f = f x"
  by (simp_all add: then_do_def)

lemma form_obj_props:
  "get_prop (form_obj f) (js ''businessName'') = Inr (JStr (businessName f))"
  "get_prop (form_obj f) (js ''city'') = Inr (JStr (city f))"
  "get_prop (form_obj f) (js ''country'') = Inr (JStr (country f))"
  "get_prop (form_obj f) (js ''targetAudience'') = Inr (JStr (targetAudience f))"
  "get_prop (form_obj f) (js ''budget'') = Inr (JStr (budget f))"
  "get_prop (form_obj f) (js ''businessType'') = Inr (JStr (businessType f))"
  "get_prop (form_obj f) (js ''rawIdea'') = Inr (JStr (rawIdea f))"
  "get_prop (form_obj f) (js ''problem'') = Inr (JStr (problem f))"
  "get_prop (form_obj f) (js ''model'') = Inr (JStr (model f))"
  "get_prop (form_obj f) (js ''timeCommitment'') = Inr (JStr (timeCommitment f))"
  "get_prop (form_obj f) (js ''outputTone'') = Inr (JStr (outputTone f))"
  "get_prop (form_obj f) (js ''stageOfIdea'') = Inr (JStr (stageOfIdea f))"
  "get_prop (form_obj f) (js ''timeHorizon'') = Inr (JStr (timeHorizon f))"
  by (simp_all add: form_obj_def js_eq_iff)

text \<open>What \<open>validateForm\<close> collects on a form of strings, rule by rule.\<close>

definition country_errors :: "jstring list \<Rightarrow> form \<Rightarrow> field_errors" where
  "country_errors cs f =
     (if blank (country f) then [(js ''country'', js ''Country is required'')]
      else if country f \<notin> set cs
        then [(js ''country'', js ''Please select a country from the dropdown'')]
      else [])"

definition other_errors :: "form \<Rightarrow> bool \<Rightarrow> field_errors" where
  "other_errors f t =
       (if blank (city f) then [(js ''city'', js ''City is required'')] else [])
     @ (if blank (rawIdea f) then [(js ''rawIdea'', js ''Raw idea is required'')] else [])
     @ (if timeCommitment f = []
          then [(js ''timeCommitment'', js ''Time commitment is required'')] else [])
     @ (if \<not> t then [(js ''terms'', js ''You must accept the terms and conditions'')] else [])"

lemma validateForm_form_obj:
  "validateForm cs (form_obj f) t =
     Inr (country_errors cs f @ other_errors f t = [], country_errors cs f @ other_errors f t)"
  by (simp add: validateForm_def form_obj_props then_do_simps blank_def array_includes_def
      country_errors_def other_errors_def)

lemma country_errors_lookup:
  "map_of (country_errors cs f @ other_errors f t) (js ''country'') =
     (if blank (country f) then Some (js ''Country is required'')
      else if country f \<in> set cs then None
      else Some (js ''Please select a country from the dropdown''))"
  by (simp add: country_errors_def other_errors_def js_eq_iff)

lemma city_errors_lookup:
  "map_of (country_errors cs f @ other_errors f t) (js ''city'') =
     (if blank (city f) then Some (js ''City is required'') else None)"
  by (simp add: country_errors_def other_errors_def js_eq_iff)

lemma rawIdea_errors_lookup:
  "map_of (country_errors cs f @ other_errors f t) (js ''rawIdea'') =
     (if blank (rawIdea f) then Some (js ''Raw idea is required'') else None)"
  by (simp add: country_errors_def other_errors_def js_eq_iff)

lemma timeCommitment_errors_lookup:
  "map_of (country_errors cs f @ other_errors f t) (js ''timeCommitment'') =
     (if timeCommitment f = [] then Some (js ''Time commitment is required'') else None)"
  by (simp add: country_errors_def other_errors_def js_eq_iff)

lemma terms_errors_lookup:
  "map_of (country_errors cs f @ other_errors f t) (js ''terms'') =
     (if t then None else Some (js ''You must accept the terms and conditions''))"
  by (simp add: country_errors_def other_errors_def js_eq_iff)

lemma no_errors_iff:
  "country_errors cs f @ other_errors f t = [] \<longleftrightarrow>
     \<not> blank (country f) \<and> country f \<in> set cs \<and> \<not> blank (city f) \<and> \<not> blank (rawIdea f) \<and>
     timeCommitment f \<noteq> [] \<and> t"
  by (simp add: country_errors_def other_errors_def)

lemma error_keys:
  "fst ` set (country_errors cs f @ other_errors f t) \<subseteq>
     {js ''country'', js ''city'', js ''rawIdea'', js ''timeCommitment'', js ''terms''}"
  by (auto simp add: country_errors_def other_errors_def split: if_splits)

lemma blank_space: "blank (js '' '')"
  by (simp add: blank_iff js_def is_ws_def)

lemma bakery_not_blank:
  "\<not> blank (js ''France'')" "\<not> blank (js ''Paris'')" "\<not> blank (js ''organic bakery'')"
  "\<not> blank (js ''Atlantis'')"
  by (simp_all add: blank_iff js_def is_ws_def)

text \<open>
  Claim C1, as amended. On a form of strings \<open>validateForm\<close> returns without an exception;
  \<open>newErrors\<close> has the entry \<open>country\<close> exactly when the country is blank after trimming
  (message "Country is required") or is not in the list of known countries (message
  "Please select a country from the dropdown"), the entries \<open>city\<close> and \<open>rawIdea\<close> exactly
  when those fields are blank after trimming, the entry \<open>timeCommitment\<close> exactly when that
  field is the empty string (it is not trimmed), the entry \<open>terms\<close> exactly when the terms
  are not accepted, and no other entry; the result is valid exactly when all five rules
  hold.
\<close>

theorem validateForm_rules:
  "\<exists>errs. validateForm cs (form_obj f) t = Inr (errs = [], errs) \<and>
     map_of errs (js ''country'') =
       (if blank (country f) then Some (js ''Country is required'')
        else if country f \<in> set cs then None
        else Some (js ''Please select a country from the dropdown'')) \<and>
     map_of errs (js ''city'') =
       (if blank (city f) then Some (js ''City is required'') else None) \<and>
     map_of errs (js ''rawIdea'') =
       (if blank (rawIdea f) then Some (js ''Raw idea is required'') else None) \<and>
     map_of errs (js ''timeCommitment'') =
       (if timeCommitment f = [] then Some (js ''Time commitment is required'') else None) \<and>
     map_of errs (js ''terms'') =
       (if t then None else Some (js ''You must accept the terms and conditions'')) \<and>
     fst ` set errs \<subseteq>
       {js ''country'', js ''city'', js ''rawIdea'', js ''timeCommitment'', js ''terms''} \<and>
     (errs = [] \<longleftrightarrow>
        \<not> blank (country f) \<and> country f \<in> set cs \<and> \<not> blank (city f) \<and>
        \<not> blank (rawIdea f) \<and> timeCommitment f \<noteq> [] \<and> t)"
proof (intro exI conjI)
  show "validateForm cs (form_obj f) t =
    Inr (country_errors cs f @ other_errors f t = [], country_errors cs f @ other_errors f t)"
    by (rule validateForm_form_obj)
qed (rule country_errors_lookup city_errors_lookup rawIdea_errors_lookup
    timeCommitment_errors_lookup terms_errors_lookup error_keys no_errors_iff)+

theorem validateForm_rules_witness:
  "\<exists>errs. validateForm [js ''France''] (form_obj (bakery\<lparr>country := [], timeCommitment := []\<rparr>)) False
        = Inr (False, errs) \<and>
     map_of errs (js ''country'') = Some (js ''Country is required'') \<and>
     map_of errs (js ''city'') = None \<and>
     map_of errs (js ''rawIdea'') = None \<and>
     map_of errs (js ''timeCommitment'') = Some (js ''Time commitment is required'') \<and>
     map_of errs (js ''terms'') = Some (js ''You must accept the terms and conditions'')"
  using validateForm_rules [of "[js ''France'']" "bakery\<lparr>country := [], timeCommitment := []\<rparr>" False]
  by (auto simp add: bakery_def blank_Nil bakery_not_blank)

text \<open>
  Claim C1 as stated fails: a time commitment of one space is blank, and the form is
  accepted with no entry for it.
\<close>

theorem blank_timeCommitment_accepted:
  "blank (timeCommitment (bakery\<lparr>timeCommitment := js '' ''\<rparr>)) \<and>
   validateForm [js ''France''] (form_obj (bakery\<lparr>timeCommitment := js '' ''\<rparr>)) True = Inr (True, [])"
  by (simp add: validateForm_form_obj country_errors_def other_errors_def bakery_def
      blank_space bakery_not_blank js_Nil_iff)

text \<open>
  Claim C4, as amended. A country that is not blank after trimming and is not in the list
  of known countries makes \<open>validateForm\<close> return invalid, with the message "Please select a
  country from the dropdown" under \<open>country\<close>, which is not the message of an empty
  country.
\<close>

theorem unknown_country_rejected:
  assumes "\<not> blank (country f)" and "country f \<notin> set cs"
  shows "\<exists>errs. validateForm cs (form_obj f) t = Inr (False, errs) \<and>
           map_of errs (js ''country'') = Some (js ''Please select a country from the dropdown'') \<and>
           js ''Please select a country from the dropdown'' \<noteq> js ''Country is required''"
proof (intro exI conjI)
  show "validateForm cs (form_obj f) t = Inr (False, country_errors cs f @ other_errors f t)"
    using assms by (simp add: validateForm_form_obj country_errors_def)
  show "map_of (country_errors cs f @ other_errors f t) (js ''country'') =
      Some (js ''Please select a country from the dropdown'')"
    using assms by (simp only: country_errors_lookup if_False)
  show "js ''Please select a country from the dropdown'' \<noteq> js ''Country is required''"
    by (simp add: js_eq_iff)
qed

theorem unknown_country_rejected_witness:
  "\<not> blank (js ''Atlantis'') \<and> js ''Atlantis'' \<notin> set [js ''France''] \<and>
   (\<exists>errs. validateForm [js ''France''] (form_obj (bakery\<lparr>country := js ''Atlantis''\<rparr>)) True
        = Inr (False, errs) \<and>
      map_of errs (js ''country'') = Some (js ''Please select a country from the dropdown''))"
  using unknown_country_rejected [of "bakery\<lparr>country := js ''Atlantis''\<rparr>" "[js ''France'']" True]
  by (simp add: bakery_not_blank js_eq_iff)

text \<open>
  Claim C4 as stated fails: a country of one space is not empty and not a known country,
  and the message is the one of an empty country.
\<close>

theorem whitespace_country_gets_required_message:
  "js '' '' \<noteq> [] \<and> js '' '' \<notin> set [js ''France''] \<and>
   validateForm [js ''France''] (form_obj (bakery\<lparr>country := js '' ''\<rparr>)) True
     = Inr (False, [(js ''country'', js ''Country is required'')])"
  by (simp add: validateForm_form_obj country_errors_def other_errors_def bakery_def
      blank_space bakery_not_blank js_Nil_iff js_eq_iff)

text \<open>The earlier copy of the form accepts a country that is not in the list.\<close>

lemma validateForm_v1_unknown_country:
  "validateForm_v1 (form_obj (bakery\<lparr>country := js ''Atlantis''\<rparr>)) True = Inr (True, [])"
  by (simp add: validateForm_v1_def form_obj_props then_do_simps bakery_def js_Nil_iff)
     (simp add: bakery_not_blank [unfolded blank_def])

section \<open>Submission of the form\<close>

lemma trimmed_form_obj:
  "trimmed (form_obj f) ''businessName'' = Inr (trim (businessName f))"
  "trimmed (form_obj f) ''city'' = Inr (trim (city f))"
  "trimmed (form_obj f) ''country'' = Inr (trim (country f))"
  "trimmed (form_obj f) ''targetAudience'' = Inr (trim (targetAudience f))"
  "trimmed (form_obj f) ''budget'' = Inr (trim (budget f))"
  "trimmed (form_obj f) ''rawIdea'' = Inr (trim (rawIdea f))"
  "trimmed (form_obj f) ''problem'' = Inr (trim (problem f))"
  by (simp_all add: trimmed_def form_obj_props then_do_simps)

lemma str_or_trim: "str_or (trim s) JNull = text_or_null s"
  by (simp add: str_or_def text_or_null_def blank_def)

lemma or_else_JStr: "or_else (JStr s) JNull = choice_or_null s"
  by (simp add: or_else_def choice_or_null_def)

lemma str_or_name: "str_or (trim (businessName f)) (JStr (js ''My Business'')) = JStr (typed_name f)"
  by (simp add: str_or_def typed_name_def blank_def)

lemma requestBody_form_obj:
  "requestBody (form_obj f) = Inr (JObj
     [(js ''business_name'', JStr (typed_name f)),
      (js ''location_city'', str_or (trim (city f)) (JStr [])),
      (js ''country'', JStr (trim (country f))),
      (js ''target_audience'', text_or_null (targetAudience f)),
      (js ''budget'', text_or_null (budget f)),
      (js ''business_type'', choice_or_null (businessType f)),
      (js ''raw_idea'', JStr (trim (rawIdea f))),
      (js ''problem'', text_or_null (problem f)),
      (js ''file_content'', JNull),
      (js ''photos_description'', JNull),
      (js ''model_selection'',
         JStr (if model f = js ''gemini'' then js ''google-gemini-flash'' else js ''chatgpt-latest'')),
      (js ''time_commitment'', choice_or_null (timeCommitment f)),
      (js ''output_tone'', choice_or_null (outputTone f)),
      (js ''language'', JStr (js ''en'')),
      (js ''stage_of_idea'', choice_or_null (stageOfIdea f)),
      (js ''time_horizon'', choice_or_null (timeHorizon f))])"
  by (simp add: requestBody_def trimmed_form_obj form_obj_props then_do_simps getModelSelection_def
      str_or_trim or_else_JStr str_or_name)

lemma handleSubmit_valid:
  assumes "validateForm cs (formData st) (termsAccepted st) = Inr (True, errs)"
    and "requestBody (formData st) = Inr body"
  shows "handleSubmit cs net st =
    (case then_do net (handle_response (formData st)) of
       Inl e \<Rightarrow> Inr (st\<lparr>errors := errs, isLoading := False, apiError := Some (catch_message e)\<rparr>,
                     \<lparr>request = Some body, navigation = None\<rparr>)
     | Inr nav \<Rightarrow> Inr (st\<lparr>errors := errs, isLoading := False, apiError := None\<rparr>,
                      \<lparr>request = Some body, navigation = Some nav\<rparr>))"
  using assms by (simp add: handleSubmit_def then_do_simps)

lemma sent_field_valid:
  assumes "validateForm cs (formData st) (termsAccepted st) = Inr (True, errs)"
    and "requestBody (formData st) = Inr body"
  shows "sent_field k (handleSubmit cs net st) =
           (case get_prop body k of Inl e \<Rightarrow> None | Inr v \<Rightarrow> Some v)"
  by (simp add: handleSubmit_valid [OF assms] sent_field_def split: sum.split)

lemma bakery_valid: "validateForm [js ''France''] (form_obj bakery) True = Inr (True, [])"
  by (simp add: validateForm_form_obj country_errors_def other_errors_def bakery_def
      bakery_not_blank js_Nil_iff)

lemma text_or_null_nonempty: "text_or_null s \<noteq> JStr []"
  by (simp add: text_or_null_def blank_def)

lemma choice_or_null_nonempty: "choice_or_null s \<noteq> JStr []"
  by (simp add: choice_or_null_def)

lemma request_fields:
  assumes "body = JObj
     [(js ''business_name'', a1), (js ''location_city'', a2), (js ''country'', a3),
      (js ''target_audience'', a4), (js ''budget'', a5), (js ''business_type'', a6),
      (js ''raw_idea'', a7), (js ''problem'', a8), (js ''file_content'', a9),
      (js ''photos_description'', a10), (js ''model_selection'', a11),
      (js ''time_commitment'', a12), (js ''output_tone'', a13), (js ''language'', a14),
      (js ''stage_of_idea'', a15), (js ''time_horizon'', a16)]"
  shows "get_prop body (js ''business_name'') = Inr a1"
    and "get_prop body (js ''target_audience'') = Inr a4"
    and "get_prop body (js ''budget'') = Inr a5"
    and "get_prop body (js ''business_type'') = Inr a6"
    and "get_prop body (js ''problem'') = Inr a8"
    and "get_prop body (js ''file_content'') = Inr a9"
    and "get_prop body (js ''photos_description'') = Inr a10"
    and "get_prop body (js ''time_commitment'') = Inr a12"
    and "get_prop body (js ''output_tone'') = Inr a13"
    and "get_prop body (js ''language'') = Inr a14"
    and "get_prop body (js ''stage_of_idea'') = Inr a15"
    and "get_prop body (js ''time_horizon'') = Inr a16"
  by (simp_all add: assms js_eq_iff)

text \<open>
  Claim C5, as amended. For every form of strings that \<open>validateForm\<close> accepts, whatever the
  network does, the request body has \<open>business_name\<close> equal to the trimmed typed name, or to
  "My Business" when that is blank; the free-text optional fields (\<open>target_audience\<close>,
  \<open>budget\<close>, \<open>problem\<close>) are \<open>null\<close> when blank after trimming and the trimmed text
  otherwise; the optional fields that come from a select (\<open>business_type\<close>,
  \<open>output_tone\<close>, \<open>stage_of_idea\<close>, \<open>time_horizon\<close>) are \<open>null\<close> when they are the empty
  string and are sent as they are otherwise (they are not trimmed); \<open>time_commitment\<close> is
  sent as it is; \<open>file_content\<close> and \<open>photos_description\<close> are \<open>null\<close>; and no optional
  field is sent as the empty string.
\<close>

theorem submitted_request_body:
  assumes valid: "validateForm cs (formData st) (termsAccepted st) = Inr (True, errs)"
    and form: "formData st = form_obj f"
  shows "sent_field (js ''business_name'') (handleSubmit cs net st) =
           Some (JStr (if blank (businessName f) then js ''My Business'' else trim (businessName f))) \<and>
         sent_field (js ''target_audience'') (handleSubmit cs net st) =
           Some (if blank (targetAudience f) then JNull else JStr (trim (targetAudience f))) \<and>
         sent_field (js ''budget'') (handleSubmit cs net st) =
           Some (if blank (budget f) then JNull else JStr (trim (budget f))) \<and>
         sent_field (js ''problem'') (handleSubmit cs net st) =
           Some (if blank (problem f) then JNull else JStr (trim (problem f))) \<and>
         sent_field (js ''business_type'') (handleSubmit cs net st) =
           Some (if businessType f = [] then JNull else JStr (businessType f)) \<and>
         sent_field (js ''time_commitment'') (handleSubmit cs net st) =
           Some (JStr (timeCommitment f)) \<and>
         sent_field (js ''output_tone'') (handleSubmit cs net st) =
           Some (if outputTone f = [] then JNull else JStr (outputTone f)) \<and>
         sent_field (js ''stage_of_idea'') (handleSubmit cs net st) =
           Some (if stageOfIdea f = [] then JNull else JStr (stageOfIdea f)) \<and>
         sent_field (js ''time_horizon'') (handleSubmit cs net st) =
           Some (if timeHorizon f = [] then JNull else JStr (timeHorizon f)) \<and>
         sent_field (js ''file_content'') (handleSubmit cs net st) = Some JNull \<and>
         sent_field (js ''photos_description'') (handleSubmit cs net st) = Some JNull \<and>
         list_all (\<lambda>k. sent_field k (handleSubmit cs net st) \<noteq> Some (JStr [])) optional_fields"
proof -
  obtain body where body: "requestBody (formData st) = Inr body"
    by (simp add: form requestBody_form_obj)
  note sent = sent_field_valid [OF valid body]
  note fields = request_fields [OF body [unfolded form requestBody_form_obj, THEN Inr_inject, symmetric]]
  from valid have "country_errors cs f @ other_errors f (termsAccepted st) = []"
    unfolding form validateForm_form_obj by simp
  then have ne: "timeCommitment f \<noteq> []"
    using no_errors_iff [of cs f "termsAccepted st"] by blast
  then have tc: "choice_or_null (timeCommitment f) = JStr (timeCommitment f)"
    by (simp add: choice_or_null_def)
  show ?thesis
    by (simp add: sent fields optional_fields_def tc typed_name_def js_Nil_iff
        text_or_null_nonempty choice_or_null_nonempty)
       (simp add: text_or_null_def choice_or_null_def ne)
qed

theorem submitted_request_body_witness:
  "sent_field (js ''business_name'') (handleSubmit [js ''France''] (Inl TypeError) (page_of bakery True))
     = Some (JStr (js ''My Business'')) \<and>
   sent_field (js ''target_audience'') (handleSubmit [js ''France''] (Inl TypeError) (page_of bakery True))
     = Some JNull \<and>
   sent_field (js ''time_commitment'') (handleSubmit [js ''France''] (Inl TypeError) (page_of bakery True))
     = Some (JStr (js ''full-time''))"
  using submitted_request_body [of "[js ''France'']" "page_of bakery True" "[]" bakery "Inl TypeError"]
  by (simp add: page_of_def bakery_valid) (simp add: bakery_def blank_Nil)

text \<open>
  Claim C5 as stated fails: a business type of one space has an empty trimmed value, the
  form is valid, and the field is sent as that space, not as \<open>null\<close>.
\<close>

theorem whitespace_business_type_sent:
  "blank (businessType (bakery\<lparr>businessType := js '' ''\<rparr>)) \<and>
   validateForm [js ''France''] (form_obj (bakery\<lparr>businessType := js '' ''\<rparr>)) True = Inr (True, []) \<and>
   sent_field (js ''business_type'')
     (handleSubmit [js ''France''] (Inl TypeError) (page_of (bakery\<lparr>businessType := js '' ''\<rparr>) True))
     = Some (JStr (js '' ''))"
proof -
  let ?f = "bakery\<lparr>businessType := js '' ''\<rparr>"
  have v: "validateForm [js ''France''] (formData (page_of ?f True)) (termsAccepted (page_of ?f True))
             = Inr (True, [])"
    by (simp add: page_of_def validateForm_form_obj country_errors_def other_errors_def bakery_def
        bakery_not_blank js_Nil_iff)
  have b: "requestBody (formData (page_of ?f True)) = Inr (JObj
     [(js ''business_name'', JStr (typed_name ?f)),
      (js ''location_city'', str_or (trim (city ?f)) (JStr [])),
      (js ''country'', JStr (trim (country ?f))),
      (js ''target_audience'', text_or_null (targetAudience ?f)),
      (js ''budget'', text_or_null (budget ?f)),
      (js ''business_type'', choice_or_null (businessType ?f)),
      (js ''raw_idea'', JStr (trim (rawIdea ?f))),
      (js ''problem'', text_or_null (problem ?f)),
      (js ''file_content'', JNull),
      (js ''photos_description'', JNull),
      (js ''model_selection'',
         JStr (if model ?f = js ''gemini'' then js ''google-gemini-flash'' else js ''chatgpt-latest'')),
      (js ''time_commitment'', choice_or_null (timeCommitment ?f)),
      (js ''output_tone'', choice_or_null (outputTone ?f)),
      (js ''language'', JStr (js ''en'')),
      (js ''stage_of_idea'', choice_or_null (stageOfIdea ?f)),
      (js ''time_horizon'', choice_or_null (timeHorizon ?f))])"
    by (simp only: page_of_def form_page.simps requestBody_form_obj)
  have "sent_field (js ''business_type'') (handleSubmit [js ''France''] (Inl TypeError) (page_of ?f True))
      = Some (choice_or_null (businessType ?f))"
    by (simp add: sent_field_valid [OF v b] js_eq_iff)
  then show ?thesis
    using v by (simp add: page_of_def choice_or_null_def js_Nil_iff blank_space)
qed

lemma businessContext_form_obj:
  assumes "businessNameForPresentation (form_obj f) analysis = Inr name"
  shows "businessContext (form_obj f) analysis = Inr (JObj
     [(js ''business_name'', name),
      (js ''raw_idea'', JStr (trim (rawIdea f))),
      (js ''problem'', text_or_null (problem f)),
      (js ''target_audience'', text_or_null (targetAudience f)),
      (js ''location_city'', text_or_null (city f)),
      (js ''country'', text_or_null (country f)),
      (js ''budget'', text_or_null (budget f)),
      (js ''business_type'', choice_or_null (businessType f))])"
  by (simp add: businessContext_def assms trimmed_form_obj form_obj_props then_do_simps
      str_or_trim or_else_JStr)

lemma businessNameForPresentation_form_obj:
  assumes "get_prop analysis (js ''suggested_business_name'') = Inr sn"
    and "sn = JUndefined \<or> sn = JNull \<or> sn = JStr s"
  shows "businessNameForPresentation (form_obj f) analysis =
           Inr (JStr (if sn = JStr s \<and> \<not> blank s then trim s else typed_name f))"
  using assms(2)
  by (auto simp add: businessNameForPresentation_def assms(1) then_do_simps trimmed_form_obj
      str_or_name blank_def)

lemma handleSubmit_context_name:
  assumes valid: "validateForm cs (formData st) (termsAccepted st) = Inr (True, errs)"
    and form: "formData st = form_obj f"
    and resp: "ok r" "json r = Inr analysis"
    and sugg: "get_prop analysis (js ''suggested_business_name'') = Inr sn"
    and typed: "sn = JUndefined \<or> sn = JNull \<or> sn = JStr s"
  shows "map_option fst (navigated (handleSubmit cs (Inr r) st)) = Some analysis \<and>
         context_field (js ''business_name'') (handleSubmit cs (Inr r) st) =
           Some (JStr (if sn = JStr s \<and> \<not> blank s then trim s
                       else if blank (businessName f) then js ''My Business''
                       else trim (businessName f)))"
proof -
  obtain body where body: "requestBody (formData st) = Inr body"
    by (simp add: form requestBody_form_obj)
  let ?name = "JStr (if sn = JStr s \<and> \<not> blank s then trim s else typed_name f)"
  have name: "businessNameForPresentation (form_obj f) analysis = Inr ?name"
    by (rule businessNameForPresentation_form_obj [OF sugg typed])
  have "handle_response (form_obj f) r = Inr (analysis,
      JObj [(js ''business_name'', ?name),
      (js ''raw_idea'', JStr (trim (rawIdea f))),
      (js ''problem'', text_or_null (problem f)),
      (js ''target_audience'', text_or_null (targetAudience f)),
      (js ''location_city'', text_or_null (city f)),
      (js ''country'', text_or_null (country f)),
      (js ''budget'', text_or_null (budget f)),
      (js ''business_type'', choice_or_null (businessType f))])"
    by (simp add: handle_response_def resp then_do_simps businessContext_form_obj [OF name])
  then show ?thesis
    by (simp add: handleSubmit_valid [OF valid body] form then_do_simps navigated_def
        context_field_def typed_name_def)
qed

text \<open>
  Claim C6, as amended. For a valid form of strings and a successful response whose
  \<open>suggested_business_name\<close> is absent, \<open>null\<close> or a string, the page navigates with the
  analysis and a business context whose \<open>business_name\<close> is the trimmed suggested name when
  that is a string and not blank, otherwise the trimmed typed name, otherwise
  "My Business".
\<close>

theorem context_business_name:
  assumes "validateForm cs (formData st) (termsAccepted st) = Inr (True, errs)"
    and "formData st = form_obj f"
    and "ok r" and "json r = Inr analysis"
    and "get_prop analysis (js ''suggested_business_name'') = Inr sn"
    and "sn = JUndefined \<or> sn = JNull \<or> sn = JStr s"
  shows "map_option fst (navigated (handleSubmit cs (Inr r) st)) = Some analysis \<and>
         context_field (js ''business_name'') (handleSubmit cs (Inr r) st) =
           Some (JStr (if sn = JStr s \<and> \<not> blank s then trim s
                       else if blank (businessName f) then js ''My Business''
                       else trim (businessName f)))"
  using assms by (rule handleSubmit_context_name)

lemma trim_examples:
  "trim (js '' Acme '') = js ''Acme''" "trim (js ''Le Pain'') = js ''Le Pain''"
  by (simp_all add: trim_def trimStart_def trimEnd_def js_def is_ws_def)

lemma blank_examples:
  "\<not> blank (js '' Acme '')" "\<not> blank (js ''Le Pain'')"
  by (simp_all add: blank_iff js_def is_ws_def)

lemma page_valid:
  "validateForm [js ''France''] (formData (page_of (bakery\<lparr>businessName := b\<rparr>) True))
       (termsAccepted (page_of (bakery\<lparr>businessName := b\<rparr>) True)) = Inr (True, [])"
  by (simp add: page_of_def validateForm_form_obj country_errors_def other_errors_def bakery_def
      bakery_not_blank js_Nil_iff)

theorem context_business_name_witness:
  "map_option fst (navigated (handleSubmit [js ''France''] (Inr (ok_response (JObj [])))
       (page_of (bakery\<lparr>businessName := js ''Le Pain''\<rparr>) True))) = Some (JObj []) \<and>
   context_field (js ''business_name'') (handleSubmit [js ''France''] (Inr (ok_response (JObj [])))
       (page_of (bakery\<lparr>businessName := js ''Le Pain''\<rparr>) True)) = Some (JStr (js ''Le Pain''))"
  using context_business_name [OF page_valid [of "js ''Le Pain''"], of "bakery\<lparr>businessName := js ''Le Pain''\<rparr>"
      "ok_response (JObj [])" "JObj []" JUndefined "[]"]
  by (simp add: page_of_def ok_response_def ok_def blank_examples trim_examples)

text \<open>
  Claim C6 as stated fails: the suggested name " Acme " is present and not blank, and the
  business name is "Acme", which is not the suggested name.
\<close>

theorem suggested_name_is_trimmed:
  "\<not> blank (js '' Acme '') \<and>
   context_field (js ''business_name'')
     (handleSubmit [js ''France'']
        (Inr (ok_response (JObj [(js ''suggested_business_name'', JStr (js '' Acme ''))])))
        (page_of bakery True))
     = Some (JStr (js ''Acme'')) \<and>
   js ''Acme'' \<noteq> js '' Acme ''"
  using handleSubmit_context_name [OF page_valid [of "[]"], of bakery
      "ok_response (JObj [(js ''suggested_business_name'', JStr (js '' Acme ''))])"
      "JObj [(js ''suggested_business_name'', JStr (js '' Acme ''))]" "JStr (js '' Acme '')" "js '' Acme ''"]
  by (simp add: page_of_def ok_response_def ok_def blank_examples trim_examples js_eq_iff bakery_def)

lemma shown_error_valid:
  assumes "validateForm cs (formData st) (termsAccepted st) = Inr (True, errs)"
    and "formData st = form_obj f"
  shows "shown_error (handleSubmit cs net st) =
           (case then_do net (handle_response (form_obj f)) of
              Inl e \<Rightarrow> Some (catch_message e) | Inr nav \<Rightarrow> None)"
    and "navigated (handleSubmit cs net st) =
           (case then_do net (handle_response (form_obj f)) of
              Inl e \<Rightarrow> None | Inr nav \<Rightarrow> Some nav)"
proof -
  obtain body where body: "requestBody (formData st) = Inr body"
    by (simp add: assms(2) requestBody_form_obj)
  show "shown_error (handleSubmit cs net st) =
           (case then_do net (handle_response (form_obj f)) of
              Inl e \<Rightarrow> Some (catch_message e) | Inr nav \<Rightarrow> None)"
    by (simp add: handleSubmit_valid [OF assms(1) body] assms(2) shown_error_def split: sum.split)
  show "navigated (handleSubmit cs net st) =
           (case then_do net (handle_response (form_obj f)) of
              Inl e \<Rightarrow> None | Inr nav \<Rightarrow> Some nav)"
    by (simp add: handleSubmit_valid [OF assms(1) body] assms(2) navigated_def split: sum.split)
qed

lemma research_failed_not_fetch: "research_failed n \<noteq> js ''Failed to fetch''"
  by (simp add: research_failed_def js_def)

lemma research_failed_nonempty: "research_failed n \<noteq> []"
  by (simp add: research_failed_def js_def)

text \<open>A response that is not ok, with a string under \<open>detail\<close>: the string is shown.\<close>

lemma handleSubmit_string_detail:
  assumes "validateForm cs (formData st) (termsAccepted st) = Inr (True, errs)"
    and "formData st = form_obj f"
    and "\<not> ok r" and "json r = Inr errData"
    and "get_prop errData (js ''detail'') = Inr (JStr d)"
    and "d \<noteq> []" and "d \<noteq> js ''Failed to fetch''"
  shows "shown_error (handleSubmit cs (Inr r) st) = Some d"
    and "navigated (handleSubmit cs (Inr r) st) = None"
  using assms(3-7)
  by (simp_all add: shown_error_valid [OF assms(1,2)] then_do_simps handle_response_def or_else_def
      throw_error_def to_string_def catch_message_def)

text \<open>No \<open>detail\<close>, or a body that is not JSON: the generic message with the status.\<close>

lemma handleSubmit_no_detail:
  assumes "validateForm cs (formData st) (termsAccepted st) = Inr (True, errs)"
    and "formData st = form_obj f"
    and "\<not> ok r"
    and "json r = Inl e \<or> (json r = Inr errData \<and> get_prop errData (js ''detail'') = Inr JUndefined)"
  shows "shown_error (handleSubmit cs (Inr r) st) = Some (research_failed (status r))"
    and "navigated (handleSubmit cs (Inr r) st) = None"
  using assms(3,4)
  by (auto simp add: shown_error_valid [OF assms(1,2)] then_do_simps handle_response_def or_else_def
      throw_error_def to_string_def catch_message_def research_failed_not_fetch
      research_failed_nonempty js_eq_iff)

text \<open>No response: the fixed message.\<close>

lemma handleSubmit_unreachable:
  assumes "validateForm cs (formData st) (termsAccepted st) = Inr (True, errs)"
    and "formData st = form_obj f"
  shows "shown_error (handleSubmit cs (Inl TypeError) st) = Some server_unreachable"
    and "navigated (handleSubmit cs (Inl TypeError) st) = None"
  by (simp_all add: shown_error_valid [OF assms] then_do_simps catch_message_def)

lemma page_bakery_valid:
  "validateForm [js ''France''] (formData (page_of bakery True)) (termsAccepted (page_of bakery True))
     = Inr (True, [])"
  by (simp add: page_of_def bakery_valid)

lemma page_bakery_form: "formData (page_of bakery True) = form_obj bakery"
  by (simp add: page_of_def)

text \<open>
  Claim C3 fails on the code. On a 422 response whose \<open>detail\<close> is a list of sub-errors,
  \<open>handleSubmit\<close> shows "[object Object]": \<open>new Error(detail)\<close> converts the list with
  \<open>String\<close>. \<open>analyzeBusiness\<close> of api.js, which the page imports and does not call, joins
  the messages of the sub-errors: on the same response it throws "field required".
\<close>

theorem list_detail_not_joined:
  "shown_error (handleSubmit [js ''France''] (Inr unprocessable) (page_of bakery True))
     = Some (js ''[object Object]'') \<and>
   navigated (handleSubmit [js ''France''] (Inr unprocessable) (page_of bakery True)) = None \<and>
   analyze_failure unprocessable = OtherError (js ''field required'')"
proof (intro conjI)
  have "handle_response (form_obj bakery) unprocessable = Inl (OtherError (js ''[object Object]''))"
    by (simp add: handle_response_def unprocessable_def ok_def field_required_def then_do_simps
        or_else_def throw_error_def to_string_def js_eq_iff)
  then show "shown_error (handleSubmit [js ''France''] (Inr unprocessable) (page_of bakery True))
     = Some (js ''[object Object]'')"
    and "navigated (handleSubmit [js ''France''] (Inr unprocessable) (page_of bakery True)) = None"
    by (simp_all add: shown_error_valid [OF page_bakery_valid page_bakery_form] then_do_simps
        catch_message_def js_eq_iff js_Nil_iff)
  show "analyze_failure unprocessable = OtherError (js ''field required'')"
    by (simp add: analyze_failure_def unprocessable_def field_required_def then_do_simps
        sub_error_text_def join_element_def throw_error_def to_string_def js_eq_iff js_Nil_iff)
qed

section \<open>Rounding is exact on integers below 2 ^ 53\<close>

lemma ndigits_nonpos: "a \<le> 0 \<Longrightarrow> ndigits b a = 0"
  by (simp add: ndigits.simps [of b a])

lemma ndigits_step: "0 < a \<Longrightarrow> ndigits 2 a = 1 + ndigits 2 (a div 2)"
  by (simp add: ndigits.simps [of 2 a])

lemma ndigits_bounds:
  "0 < a \<Longrightarrow> 0 < ndigits 2 a \<and> 2 ^ nat (ndigits 2 a - 1) \<le> a \<and> a < 2 ^ nat (ndigits 2 a)"
proof (induction "nat a" arbitrary: a rule: less_induct)
  case less
  show ?case
  proof (cases "0 < a div 2")
    case False
    with less.prems have a1: "a = 1" by linarith
    have "ndigits 2 (1::int) = 1"
      by (simp add: ndigits_step ndigits_nonpos)
    with a1 show ?thesis by simp
  next
    case True
    let ?m = "ndigits 2 (a div 2)"
    have "nat (a div 2) < nat a" using less.prems by simp
    from less.hyps [OF this True]
    have mpos: "0 < ?m" and lo: "2 ^ nat (?m - 1) \<le> a div 2" and hi: "a div 2 < 2 ^ nat ?m"
      by simp_all
    have nd: "ndigits 2 a = 1 + ?m" using less.prems by (rule ndigits_step)
    have "nat ?m = Suc (nat (?m - 1))" using mpos by simp
    then have p1: "(2::int) ^ nat ?m = 2 * 2 ^ nat (?m - 1)" by simp
    have "nat (1 + ?m) = Suc (nat ?m)" using mpos by simp
    then have p2: "(2::int) ^ nat (1 + ?m) = 2 * 2 ^ nat ?m" by simp
    have l: "2 * (a div 2) \<le> a" by simp
    have u: "a < 2 * (a div 2) + 2" by linarith
    have "2 ^ nat (ndigits 2 a - 1) \<le> a"
      using lo l by (simp add: nd p1)
    moreover have "a < 2 ^ nat (ndigits 2 a)"
      using hi u unfolding nd p2 by linarith
    moreover have "0 < ndigits 2 a" using mpos by (simp add: nd)
    ultimately show ?thesis by simp
  qed
qed

lemma round_half_even_of_int: "round_half_even (of_int m) = m"
  by (simp add: round_half_even_def)

lemma ipow_nonneg: "0 \<le> k \<Longrightarrow> ipow b k = of_int b ^ nat k"
  by (simp add: ipow_def)

lemma ipow_nonpos: "k \<le> 0 \<Longrightarrow> ipow b k = 1 / of_int b ^ nat (- k)"
  by (cases "k = 0") (simp_all add: ipow_def)

lemma ilog2_of_int:
  assumes "0 < a"
  shows "ilog 2 (of_int a) = ndigits 2 a - 1"
proof -
  from ndigits_bounds [OF assms]
  have pos: "0 < ndigits 2 a" and lo: "2 ^ nat (ndigits 2 a - 1) \<le> a" by simp_all
  have one: "ndigits 2 (1::int) = 1"
    by (simp add: ndigits_step ndigits_nonpos)
  have "(of_int (2 ^ nat (ndigits 2 a - 1)) :: rat) \<le> of_int a"
    using lo by (simp only: of_int_le_iff)
  then have "ipow 2 (ndigits 2 a - 1) \<le> of_int a"
    using pos by (simp add: ipow_nonneg)
  then show ?thesis
    by (simp add: ilog_def one)
qed

lemma round64_of_int:
  assumes "0 < a" and "a < 2 ^ 53"
  shows "round64 (of_int a) = Fin (of_int a)"
proof -
  define k where "k = ndigits 2 a - 1"
  from ndigits_bounds [OF assms(1)]
  have pos: "0 \<le> k" and lo: "2 ^ nat k \<le> a"
    by (simp_all add: k_def)
  have lt: "(2::int) ^ nat k < 2 ^ 53" using lo assms(2) by linarith
  have "nat k < 53"
  proof (rule ccontr)
    assume "\<not> nat k < 53"
    then have "53 \<le> nat k" by simp
    then have "(2::int) ^ 53 \<le> 2 ^ nat k" by (rule power_increasing) simp
    with lt show False by linarith
  qed
  then have k52: "k \<le> 52" by simp
  define j where "j = nat (52 - k)"
  have u: "ipow 2 (k - 52) = 1 / 2 ^ j"
    using k52 by (simp add: ipow_nonpos j_def)
  have q: "\<bar>of_int a :: rat\<bar> / (1 / 2 ^ j) = of_int (a * 2 ^ j)"
    using assms(1) by simp
  have r: "(of_int (a * 2 ^ j) :: rat) * (1 / 2 ^ j) = of_int a"
    by simp
  have big: "\<not> ipow 2 1024 \<le> (of_int a :: rat)"
  proof -
    have "(of_int a :: rat) < of_int (2 ^ 53)" using assms(2) by (simp only: of_int_less_iff)
    also have "\<dots> \<le> 2 ^ 1024" by simp
    finally show ?thesis by (simp add: ipow_nonneg)
  qed
  have e: "max (ilog 2 \<bar>of_int a\<bar>) (- 1022) = k"
    using assms(1) pos by (simp add: ilog2_of_int k_def)
  have ne: "(of_int a :: rat) \<noteq> 0" and gt: "(0::rat) < of_int a" using assms(1) by simp_all
  show ?thesis
    unfolding round64_def Let_def e u q round_half_even_of_int r
    using ne gt big by simp
qed

lemma round64_of_nat: "n < 2 ^ 53 \<Longrightarrow> round64 (of_nat n) = Fin (of_nat n)"
proof (cases "n = 0")
  case True
  then show ?thesis by (simp add: round64_def)
next
  case False
  assume "n < 2 ^ 53"
  then have "int n < 2 ^ 53" by (metis of_nat_less_iff of_nat_numeral of_nat_power)
  moreover have "0 < int n" using False by simp
  ultimately have "round64 (of_int (int n)) = Fin (of_int (int n))" by (rule round64_of_int [rotated])
  then show ?thesis by simp
qed

section \<open>Numbers: basic facts\<close>

lemma round64_not_NaN: "round64 q \<noteq> NaN"
  by (simp add: round64_def Let_def)

lemma in_range_iff:
  "in_range lo hi x \<longleftrightarrow> x \<noteq> NaN \<and> \<not> num_less x (Fin lo) \<and> \<not> num_less (Fin hi) x"
  by (cases x) (auto simp: in_range_def)

lemma trimStart_split: "\<exists>w. trimStart s = trim s @ w"
proof -
  have "rev (trimStart s) = takeWhile is_ws (rev (trimStart s)) @ dropWhile is_ws (rev (trimStart s))"
    by simp
  then have "trimStart s = rev (dropWhile is_ws (rev (trimStart s))) @ rev (takeWhile is_ws (rev (trimStart s)))"
    by (metis rev_append rev_rev_ident)
  then show ?thesis
    unfolding trim_def trimEnd_def by blast
qed

lemma unsigned_decimal_append:
  assumes "unsigned_decimal neg u \<noteq> None"
  shows "unsigned_decimal neg (u @ w) \<noteq> None"
proof (cases "starts_with (js ''Infinity'') (u @ w)")
  case True
  then show ?thesis by (simp add: unsigned_decimal_def)
next
  case ni: False
  have nu: "\<not> starts_with (js ''Infinity'') u"
  proof
    assume a: "starts_with (js ''Infinity'') u"
    then have "length (js ''Infinity'') \<le> length u"
      unfolding starts_with_def by (metis length_take min.cobounded1 min_def nat_le_linear take_all)
    with a have "starts_with (js ''Infinity'') (u @ w)"
      unfolding starts_with_def by simp
    with ni show False by simp
  qed
  show ?thesis
  proof (cases "takeWhile is_digit u = []")
    case False
    then obtain c r where u: "u = c # r" and d: "is_digit c"
      by (cases u) (auto split: if_splits)
    then have "takeWhile is_digit (u @ w) \<noteq> []" by simp
    with ni show ?thesis
      by (simp add: unsigned_decimal_def Let_def split: prod.splits)
  next
    case ip: True
    with assms nu have dot: "dropWhile is_digit u \<noteq> [] \<and> hd (dropWhile is_digit u) = 0x2E"
      and fp: "takeWhile is_digit (tl (dropWhile is_digit u)) \<noteq> []"
      by (auto simp: unsigned_decimal_def Let_def split: if_splits prod.splits)
    from ip have du: "dropWhile is_digit u = u"
      by (cases u) (auto split: if_splits)
    with dot obtain r where u: "u = 0x2E # r" by (cases u) auto
    have nd: "\<not> is_digit 0x2E" by (simp add: is_digit_def)
    from fp du u obtain c r' where r: "r = c # r'" and d: "is_digit c"
      by (cases r) (auto split: if_splits)
    show ?thesis
      using ni by (simp add: unsigned_decimal_def Let_def u nd r d split: prod.splits)
  qed
qed

lemma unsigned_decimal_Nil: "unsigned_decimal neg [] = None"
  by (simp add: unsigned_decimal_def starts_with_def js_def)

lemma signed_decimal_append:
  assumes "signed_decimal u \<noteq> None"
  shows "signed_decimal (u @ w) \<noteq> None"
proof (cases u)
  case Nil
  with assms show ?thesis by (simp add: signed_decimal_def unsigned_decimal_Nil)
next
  case (Cons c r)
  show ?thesis
  proof (cases "c = 0x2D")
    case True
    with assms Cons have "unsigned_decimal True r \<noteq> None"
      by (simp add: signed_decimal_def)
    then have "unsigned_decimal True (r @ w) \<noteq> None"
      by (rule unsigned_decimal_append)
    with True Cons show ?thesis by (simp add: signed_decimal_def)
  next
    case nm: False
    show ?thesis
    proof (cases "c = 0x2B")
      case True
      with assms Cons nm have "unsigned_decimal False r \<noteq> None"
        by (simp add: signed_decimal_def)
      then have "unsigned_decimal False (r @ w) \<noteq> None"
        by (rule unsigned_decimal_append)
      with True Cons nm show ?thesis by (simp add: signed_decimal_def)
    next
      case False
      with assms Cons nm have "unsigned_decimal False (c # r) \<noteq> None"
        by (simp add: signed_decimal_def)
      then have "unsigned_decimal False ((c # r) @ w) \<noteq> None"
        by (rule unsigned_decimal_append)
      with False Cons nm show ?thesis by (simp add: signed_decimal_def)
    qed
  qed
qed

lemma unsigned_decimal_not_NaN: "unsigned_decimal neg cs = Some (x, rest) \<Longrightarrow> x \<noteq> NaN"
  by (auto simp: unsigned_decimal_def Let_def round64_not_NaN split: if_splits prod.splits)

lemma signed_decimal_not_NaN: "signed_decimal cs = Some (x, rest) \<Longrightarrow> x \<noteq> NaN"
  by (auto simp: signed_decimal_def dest: unsigned_decimal_not_NaN split: if_splits)

lemma leading_zero_decimal:
  assumes "u \<noteq> []" and "hd u = 0x30"
  shows "signed_decimal u \<noteq> None"
proof -
  from assms obtain r where u: "u = 0x30 # r" by (cases u) auto
  have d: "is_digit 0x30" by (simp add: is_digit_def)
  show ?thesis
    by (simp add: signed_decimal_def unsigned_decimal_def Let_def u d split: prod.splits)
qed

lemma starts_with_zero:
  assumes "starts_with (0x30 # p) u"
  shows "u \<noteq> [] \<and> hd u = 0x30"
  using assms by (cases u) (auto simp: starts_with_def)

lemma js_zero_prefix:
  "js ''0x'' = 0x30 # js ''x''" "js ''0X'' = 0x30 # js ''X''"
  "js ''0o'' = 0x30 # js ''o''" "js ''0O'' = 0x30 # js ''O''"
  "js ''0b'' = 0x30 # js ''b''" "js ''0B'' = 0x30 # js ''B''"
  by (simp_all add: js_def)

text \<open>A text that \<open>Number\<close> takes for a number, and is not blank, is one for \<open>parseFloat\<close> too.\<close>

lemma parseFloat_not_NaN:
  assumes "string_to_number s \<noteq> NaN" and "\<not> blank s"
  shows "parseFloat s \<noteq> NaN"
proof -
  have "signed_decimal (trim s) \<noteq> None"
  proof (cases "starts_with (js ''0x'') (trim s) \<or> starts_with (js ''0X'') (trim s) \<or>
      starts_with (js ''0o'') (trim s) \<or> starts_with (js ''0O'') (trim s) \<or>
      starts_with (js ''0b'') (trim s) \<or> starts_with (js ''0B'') (trim s)")
    case True
    then have "trim s \<noteq> [] \<and> hd (trim s) = 0x30"
      unfolding js_zero_prefix by (auto dest: starts_with_zero)
    then show ?thesis by (simp add: leading_zero_decimal)
  next
    case False
    with assms show ?thesis
      by (auto simp: string_to_number_def Let_def blank_def split: option.splits)
  qed
  moreover obtain w where "trimStart s = trim s @ w"
    using trimStart_split by blast
  ultimately have "signed_decimal (trimStart s) \<noteq> None"
    by (simp add: signed_decimal_append)
  then show ?thesis
    by (auto simp: parseFloat_def dest: signed_decimal_not_NaN)
qed

lemma trimStart_blank: "blank s \<Longrightarrow> trimStart s = []"
  by (simp add: blank_iff trimStart_def list_all_iff)

lemma parseInt_blank: "blank s \<Longrightarrow> parseInt s = NaN"
  by (simp add: parseInt_def parseInt_radix_def trimStart_blank starts_with_def parse_digits_def js_def)

section \<open>Generation of the deck and of the video\<close>

lemma isNaN_JStr: "isNaN (JStr s) = Inr (string_to_number s = NaN)"
  by (simp add: isNaN_def to_number_def then_do_simps)

lemma parse_val_JStr:
  "parseInt_val (JStr s) = Inr (parseInt s)" "parseFloat_val (JStr s) = Inr (parseFloat s)"
  by (simp_all add: parseInt_val_def parseFloat_val_def to_string_def then_do_simps)

lemma slides_rejected_JStr:
  "slides_rejected (JStr n) =
     Inr (blank n \<or> string_to_number n = NaN \<or> num_less (parseInt n) (Fin 5) \<or>
          num_less (Fin 15) (parseInt n))"
  by (simp add: slides_rejected_def then_do_simps isNaN_JStr parse_val_JStr blank_def)

lemma minutes_rejected_JStr:
  "minutes_rejected (JStr t) =
     Inr (\<not> (\<not> blank t \<and> string_to_number t \<noteq> NaN \<and> in_range 3 15 (parseFloat t)))"
proof (cases "\<not> blank t \<and> string_to_number t \<noteq> NaN")
  case True
  then have "parseFloat t \<noteq> NaN" by (simp add: parseFloat_not_NaN)
  with True show ?thesis
    by (simp add: minutes_rejected_def then_do_simps isNaN_JStr parse_val_JStr blank_def
        in_range_iff)
next
  case False
  then show ?thesis
    by (auto simp add: minutes_rejected_def then_do_simps isNaN_JStr parse_val_JStr blank_def)
qed

lemma validatePptForm_ppt_obj:
  assumes "parseInt n = NaN \<longrightarrow> blank n \<or> string_to_number n = NaN"
  shows "validatePptForm (ppt_obj n t) =
     Inr (slides_fine n \<and> minutes_fine t,
          (if slides_fine n then []
           else [(js ''numberOfSlides'', js ''Please enter a number between 5 and 15'')]) @
          (if minutes_fine t then []
           else [(js ''timeRequired'', js ''Please enter a time between 3 and 15 minutes'')]))"
proof -
  have s: "slides_rejected (JStr n) = Inr (\<not> slides_fine n)"
  proof (cases "parseInt n = NaN")
    case True
    with assms have "blank n \<or> string_to_number n = NaN" by blast
    with True show ?thesis
      by (auto simp add: slides_rejected_JStr slides_fine_def in_range_def)
  next
    case False
    then have "\<not> blank n" using parseInt_blank by blast
    with False show ?thesis
      by (simp add: slides_rejected_JStr slides_fine_def in_range_iff)
  qed
  have m: "minutes_rejected (JStr t) = Inr (\<not> minutes_fine t)"
    by (simp add: minutes_rejected_JStr minutes_fine_def)
  show ?thesis
    by (simp add: validatePptForm_def ppt_obj_def js_eq_iff then_do_simps s m)
qed

lemma generate_requestBody_total:
  assumes "truthy ctx"
  shows "\<exists>body. generate_requestBody ctx (ppt_obj n t) = Inr body"
proof -
  have g: "\<And>k. \<exists>v. get_prop ctx k = Inr v"
    using assms by (cases ctx) (simp_all split: option.splits)
  obtain v1 v2 v3 v4 v5 v6 v7 v8 v9 v10 v11 v12 where
    "get_prop ctx (js ''business_name'') = Inr v1" "get_prop ctx (js ''raw_idea'') = Inr v2"
    "get_prop ctx (js ''tagline'') = Inr v3" "get_prop ctx (js ''problem'') = Inr v4"
    "get_prop ctx (js ''target_audience'') = Inr v5" "get_prop ctx (js ''location_city'') = Inr v6"
    "get_prop ctx (js ''country'') = Inr v7" "get_prop ctx (js ''budget'') = Inr v8"
    "get_prop ctx (js ''business_type'') = Inr v9" "get_prop ctx (js ''competing_players'') = Inr v10"
    "get_prop ctx (js ''market_cap_or_target_revenue'') = Inr v11"
    "get_prop ctx (js ''undiscovered_addons'') = Inr v12"
    using g by metis
  then show ?thesis
    by (simp add: generate_requestBody_def then_do_simps ppt_obj_def js_eq_iff parse_val_JStr)
qed

lemma handleCreatePresentation_ppt_obj:
  assumes "pptFormData st = ppt_obj n t"
    and "parseInt n = NaN \<longrightarrow> blank n \<or> string_to_number n = NaN"
    and "truthy (businessCtx st)"
  shows "(request_made (handleCreatePresentation net (st, ls)) \<noteq> None) =
           (slides_fine n \<and> minutes_fine t)"
    and "ppt_errors_after (handleCreatePresentation net (st, ls)) =
           (if slides_fine n then []
            else [(js ''numberOfSlides'', js ''Please enter a number between 5 and 15'')]) @
           (if minutes_fine t then []
            else [(js ''timeRequired'', js ''Please enter a time between 3 and 15 minutes'')])"
proof -
  obtain body where b: "generate_requestBody (businessCtx st) (ppt_obj n t) = Inr body"
    using generate_requestBody_total [OF assms(3)] by blast
  show "(request_made (handleCreatePresentation net (st, ls)) \<noteq> None) =
           (slides_fine n \<and> minutes_fine t)"
    by (simp add: handleCreatePresentation_def assms(1) validatePptForm_ppt_obj [OF assms(2)]
        then_do_simps b request_made_def split: sum.splits)
  show "ppt_errors_after (handleCreatePresentation net (st, ls)) =
           (if slides_fine n then []
            else [(js ''numberOfSlides'', js ''Please enter a number between 5 and 15'')]) @
           (if minutes_fine t then []
            else [(js ''timeRequired'', js ''Please enter a time between 3 and 15 minutes'')])"
    by (simp add: handleCreatePresentation_def assms(1) validatePptForm_ppt_obj [OF assms(2)]
        then_do_simps b ppt_errors_after_def split: sum.splits)
qed

lemma round64_numeral:
  "(numeral k :: int) < 2 ^ 53 \<Longrightarrow> round64 (numeral k) = Fin (numeral k)"
  using round64_of_int [of "numeral k"] by simp

lemma round64_one: "round64 1 = Fin 1"
  using round64_of_int [of 1] by simp

lemmas parse_defs = parseInt_def parseInt_radix_def parseFloat_def string_to_number_def
  signed_decimal_def unsigned_decimal_def exponent_part_def decimal_value_def
  trim_def trimStart_def trimEnd_def js_def is_ws_def starts_with_def parse_digits_def
  digit_in_radix_def hex_value_def radix_value_def digits_value_def is_digit_def ipow_def Let_def

lemma ex1: "parseInt (js ''7.5'') = Fin 7"
  by (simp add: parse_defs round64_numeral)

lemma ex2: "string_to_number (js ''5'') = Fin 5" "parseFloat (js ''5'') = Fin 5"
  by (simp_all add: parse_defs round64_numeral)

lemma ex3: "string_to_number (js ''10'') = Fin 10" "parseInt (js ''10'') = Fin 10"
  by (simp_all add: parse_defs round64_numeral)

lemma initial_ctx_truthy: "truthy (businessCtx (initial_presentation_page c ls))"
  by (simp add: initial_presentation_page_def or_else_def)

lemma ppt_page_simps:
  "pptFormData (ppt_page n t) = ppt_obj n t" "truthy (businessCtx (ppt_page n t))"
  by (simp_all add: ppt_page_def initial_ctx_truthy)

lemma video_page_simps:
  "videoFormData (video_page t p) = video_obj t p" "businessCtx (video_page t p) = JObj []"
  by (simp_all add: video_page_def initial_presentation_page_def or_else_def)

lemma not_blank_digits:
  "\<not> blank (js ''5'')" "\<not> blank (js ''10'')" "\<not> blank (js ''7.5'')" "\<not> blank (js ''3'')"
  "\<not> blank (js ''8'')"
  by (simp_all add: blank_iff js_def is_ws_def)

lemma empty_slide_count: "blank []" "parseInt [] = NaN"
  by (simp_all add: blank_def trim_def trimStart_def trimEnd_def parseInt_blank)

lemma seven_and_a_half: "string_to_number (js ''7.5'') = Fin (15 / 2)"
  by code_simp

text \<open>
  Claim C7, as amended. Take any slide count except a text that is numeric for \<open>Number\<close>
  and from which \<open>parseInt\<close> reads no number (such as \<open>.5\<close>); the empty and the
  non-numeric slide count are included. Generation issues its request exactly when the
  slide count is numeric for \<open>Number\<close> and the integer that \<open>parseInt\<close> reads from it
  is between 5 and 15, and the duration is not blank, is numeric and \<open>parseFloat\<close> reads a
  value between 3 and 15 from it; the slide count itself need not be an integer. Otherwise
  no request is made, and each field that fails its test, and no other, gets its message.
\<close>

theorem generation_iff_valid:
  assumes "pptFormData st = ppt_obj n t"
    and "parseInt n = NaN \<longrightarrow> blank n \<or> string_to_number n = NaN"
    and "truthy (businessCtx st)"
  shows "(request_made (handleCreatePresentation net (st, ls)) \<noteq> None) =
           ((string_to_number n \<noteq> NaN \<and> in_range 5 15 (parseInt n)) \<and>
            (\<not> blank t \<and> string_to_number t \<noteq> NaN \<and> in_range 3 15 (parseFloat t))) \<and>
         ppt_errors_after (handleCreatePresentation net (st, ls)) =
           (if string_to_number n \<noteq> NaN \<and> in_range 5 15 (parseInt n) then []
            else [(js ''numberOfSlides'', js ''Please enter a number between 5 and 15'')]) @
           (if \<not> blank t \<and> string_to_number t \<noteq> NaN \<and> in_range 3 15 (parseFloat t) then []
            else [(js ''timeRequired'', js ''Please enter a time between 3 and 15 minutes'')])"
  using handleCreatePresentation_ppt_obj [OF assms, of net ls]
  by (simp add: slides_fine_def minutes_fine_def)

theorem generation_iff_valid_witness:
  "request_made (handleCreatePresentation (Inl TypeError) (ppt_page (js ''10'') (js ''5''), (\<lambda>k. None)))
     \<noteq> None \<and>
   ppt_errors_after (handleCreatePresentation (Inl TypeError) (ppt_page (js ''10'') (js ''5''), (\<lambda>k. None)))
     = [] \<and>
   request_made (handleCreatePresentation (Inl TypeError) (ppt_page [] (js ''5''), (\<lambda>k. None)))
     = None \<and>
   ppt_errors_after (handleCreatePresentation (Inl TypeError) (ppt_page [] (js ''5''), (\<lambda>k. None)))
     = [(js ''numberOfSlides'', js ''Please enter a number between 5 and 15'')]"
  using generation_iff_valid [of "ppt_page (js ''10'') (js ''5'')" "js ''10''" "js ''5''"
      "Inl TypeError" "\<lambda>k. None"]
    generation_iff_valid [of "ppt_page [] (js ''5'')" "[]" "js ''5''" "Inl TypeError" "\<lambda>k. None"]
  by (simp add: ppt_page_simps ex2 ex3 in_range_def not_blank_digits empty_slide_count)

text \<open>
  Claim C7 as stated fails: the slide count 7.5 is not an integer, and the request is
  made (with \<open>parseInt\<close> of it, 7, for the number of slides).
\<close>

theorem fractional_slide_count_accepted:
  "string_to_number (js ''7.5'') = Fin (15 / 2) \<and>
   request_made (handleCreatePresentation (Inl TypeError) (ppt_page (js ''7.5'') (js ''5''), (\<lambda>k. None)))
     \<noteq> None"
proof -
  have "parseInt (js ''7.5'') = NaN \<longrightarrow>
      blank (js ''7.5'') \<or> string_to_number (js ''7.5'') = NaN"
    by (simp add: ex1)
  from handleCreatePresentation_ppt_obj(1) [OF ppt_page_simps(1) this ppt_page_simps(2)]
  show ?thesis
    by (simp add: slides_fine_def minutes_fine_def seven_and_a_half ex1 ex2 in_range_def
        not_blank_digits)
qed

section \<open>Validation of the video form\<close>

lemma validateVideoForm_video_obj:
  "validateVideoForm (video_obj t p) =
     Inr ((\<not> blank t \<and> string_to_number t \<noteq> NaN \<and> in_range 6 10 (parseFloat t)) \<and> \<not> blank p,
          (if blank t then [(js ''timeRequired'', js ''Time required is mandatory'')]
           else if string_to_number t \<noteq> NaN \<and> in_range 6 10 (parseFloat t) then []
           else [(js ''timeRequired'', seconds_message)]) @
          (if blank p then [(js ''prompt'', js ''Video prompt is required'')] else []))"
proof (cases "\<not> blank t \<and> string_to_number t \<noteq> NaN")
  case True
  then have "parseFloat t \<noteq> NaN" by (simp add: parseFloat_not_NaN)
  with True show ?thesis
    by (simp add: validateVideoForm_def video_obj_def js_eq_iff then_do_simps isNaN_JStr
        parse_val_JStr blank_def in_range_iff)
next
  case False
  then show ?thesis
    by (auto simp add: validateVideoForm_def video_obj_def js_eq_iff then_do_simps isNaN_JStr
        parse_val_JStr blank_def)
qed

lemma parseFloat_blank: "blank s \<Longrightarrow> parseFloat s = NaN"
  by (simp add: parseFloat_def trimStart_blank signed_decimal_def unsigned_decimal_Nil)

lemma handleGenerateVideo_rejects:
  assumes "videoFormData st = video_obj t p"
    and "\<not> ((\<not> blank t \<and> string_to_number t \<noteq> NaN \<and> in_range 6 10 (parseFloat t)) \<and> \<not> blank p)"
  shows "request_made (handleGenerateVideo net (st, ls)) = None"
    and "video_errors_after (handleGenerateVideo net (st, ls)) =
          (if blank t then [(js ''timeRequired'', js ''Time required is mandatory'')]
           else if string_to_number t \<noteq> NaN \<and> in_range 6 10 (parseFloat t) then []
           else [(js ''timeRequired'', seconds_message)]) @
          (if blank p then [(js ''prompt'', js ''Video prompt is required'')] else [])"
  using assms(2)
  by (simp_all add: handleGenerateVideo_def assms(1) validateVideoForm_video_obj then_do_simps
      request_made_def video_errors_after_def)

lemma handleGenerateVideo_issued:
  assumes "videoFormData st = video_obj t p"
    and "request_made (handleGenerateVideo net (st, ls)) \<noteq> None"
  shows "in_range 6 10 (parseFloat t) \<and> \<not> blank p"
proof (rule ccontr)
  assume "\<not> (in_range 6 10 (parseFloat t) \<and> \<not> blank p)"
  then have "\<not> ((\<not> blank t \<and> string_to_number t \<noteq> NaN \<and> in_range 6 10 (parseFloat t)) \<and> \<not> blank p)"
    by blast
  from handleGenerateVideo_rejects(1) [OF assms(1) this] assms(2) show False by simp
qed

text \<open>
  Claim C8. A request for a video is made only when the duration that \<open>parseFloat\<close> reads
  is between 6 and 10 and the prompt is not empty. A duration outside that range, or one
  that is no number, makes the handler stop before the request with a message under
  \<open>timeRequired\<close>; an empty prompt makes it stop with the message "Video prompt is
  required" under \<open>prompt\<close>.
\<close>

theorem video_validation:
  assumes "videoFormData st = video_obj t p"
  shows "(request_made (handleGenerateVideo net (st, ls)) \<noteq> None \<longrightarrow>
            in_range 6 10 (parseFloat t) \<and> p \<noteq> []) \<and>
         (\<not> in_range 6 10 (parseFloat t) \<longrightarrow>
            request_made (handleGenerateVideo net (st, ls)) = None \<and>
            map_of (video_errors_after (handleGenerateVideo net (st, ls))) (js ''timeRequired'') \<noteq> None) \<and>
         (p = [] \<longrightarrow>
            request_made (handleGenerateVideo net (st, ls)) = None \<and>
            map_of (video_errors_after (handleGenerateVideo net (st, ls))) (js ''prompt'') =
              Some (js ''Video prompt is required''))"
proof (intro conjI impI)
  assume r: "request_made (handleGenerateVideo net (st, ls)) \<noteq> None"
  from handleGenerateVideo_issued [OF assms r]
  show "in_range 6 10 (parseFloat t)" and "p \<noteq> []"
    by (auto simp: blank_Nil)
next
  assume n: "\<not> in_range 6 10 (parseFloat t)"
  then have c: "\<not> ((\<not> blank t \<and> string_to_number t \<noteq> NaN \<and> in_range 6 10 (parseFloat t)) \<and> \<not> blank p)"
    by blast
  show "request_made (handleGenerateVideo net (st, ls)) = None"
    by (rule handleGenerateVideo_rejects(1) [OF assms c])
  show "map_of (video_errors_after (handleGenerateVideo net (st, ls))) (js ''timeRequired'') \<noteq> None"
    using n by (simp add: handleGenerateVideo_rejects(2) [OF assms c] js_eq_iff)
next
  assume e: "p = []"
  then have c: "\<not> ((\<not> blank t \<and> string_to_number t \<noteq> NaN \<and> in_range 6 10 (parseFloat t)) \<and> \<not> blank p)"
    by (simp add: blank_Nil)
  show "request_made (handleGenerateVideo net (st, ls)) = None"
    by (rule handleGenerateVideo_rejects(1) [OF assms c])
  show "map_of (video_errors_after (handleGenerateVideo net (st, ls))) (js ''prompt'') =
      Some (js ''Video prompt is required'')"
    using e by (simp add: handleGenerateVideo_rejects(2) [OF assms c] js_eq_iff blank_Nil)
qed

lemma ex4: "string_to_number (js ''3'') = Fin 3" "parseFloat (js ''3'') = Fin 3"
  "string_to_number (js ''8'') = Fin 8" "parseFloat (js ''8'') = Fin 8"
  by (simp_all add: parse_defs round64_numeral)

lemma not_blank_demo: "\<not> blank (js ''demo'')"
  by (simp add: blank_iff js_def is_ws_def)

lemma video_request_made:
  "request_made (handleGenerateVideo (Inl TypeError) (video_page (js ''8'') (js ''demo''), (\<lambda>k. None)))
     \<noteq> None"
proof -
  have v: "validateVideoForm (video_obj (js ''8'') (js ''demo'')) = Inr (True, [])"
    by (simp add: validateVideoForm_video_obj ex4 in_range_def not_blank_digits not_blank_demo)
  have c: "\<And>k. context_text (JObj []) k = Inr JNull"
    by (simp add: context_text_def then_do_simps or_else_def)
  have b: "video_requestBody (JObj []) (video_obj (js ''8'') (js ''demo'')) =
      Inr (JObj
         [(js ''time'', JNum (num_div_by (parseFloat (js ''8'')) 60)),
          (js ''prompt'', JStr (trim (js ''demo''))),
          (js ''business_name'', JNull),
          (js ''raw_idea'', JNull),
          (js ''problem'', JNull),
          (js ''target_audience'', JNull),
          (js ''location_city'', JNull),
          (js ''country'', JNull)])"
    by (simp add: video_requestBody_def video_obj_def js_eq_iff then_do_simps parse_val_JStr c)
  show ?thesis
    by (simp add: handleGenerateVideo_def video_page_simps v b then_do_simps request_made_def)
qed

theorem video_validation_witness:
  "\<not> in_range 6 10 (parseFloat (js ''3'')) \<and>
   request_made (handleGenerateVideo (Inl TypeError) (video_page (js ''3'') (js ''demo''), (\<lambda>k. None)))
     = None \<and>
   map_of (video_errors_after
       (handleGenerateVideo (Inl TypeError) (video_page (js ''3'') (js ''demo''), (\<lambda>k. None))))
     (js ''timeRequired'') \<noteq> None \<and>
   request_made (handleGenerateVideo (Inl TypeError) (video_page (js ''8'') [], (\<lambda>k. None))) = None \<and>
   request_made (handleGenerateVideo (Inl TypeError) (video_page (js ''8'') (js ''demo''), (\<lambda>k. None)))
     \<noteq> None \<and>
   in_range 6 10 (parseFloat (js ''8''))"
proof -
  have a: "\<not> in_range 6 10 (parseFloat (js ''3''))"
    by (simp add: ex4 in_range_def)
  have b: "in_range 6 10 (parseFloat (js ''8''))"
    by (simp add: ex4 in_range_def)
  note three = video_validation [OF video_page_simps(1) [of "js ''3''" "js ''demo''"],
      of "Inl TypeError" "\<lambda>k. None"]
  note empty = video_validation [OF video_page_simps(1) [of "js ''8''" "[]"],
      of "Inl TypeError" "\<lambda>k. None"]
  from three a have
    "request_made (handleGenerateVideo (Inl TypeError) (video_page (js ''3'') (js ''demo''), (\<lambda>k. None)))
       = None \<and>
     map_of (video_errors_after
         (handleGenerateVideo (Inl TypeError) (video_page (js ''3'') (js ''demo''), (\<lambda>k. None))))
       (js ''timeRequired'') \<noteq> None"
    by blast
  moreover from empty have
    "request_made (handleGenerateVideo (Inl TypeError) (video_page (js ''8'') [], (\<lambda>k. None))) = None"
    by blast
  ultimately show ?thesis
    using a b video_request_made by blast
qed

section \<open>Slide navigation\<close>

lemma round64_minus: "round64 (- q) = num_neg (round64 q)"
  by (simp add: round64_def Let_def)

lemma round64_int_exact:
  assumes "\<bar>a\<bar> < 2 ^ 53"
  shows "round64 (of_int a) = Fin (of_int a)"
proof (cases "0 < a")
  case True
  with assms show ?thesis by (simp add: round64_of_int)
next
  case False
  show ?thesis
  proof (cases "a = 0")
    case True
    then show ?thesis by (simp add: round64_def)
  next
    case nz: False
    with False assms have "0 < - a" and "- a < 2 ^ 53" by simp_all
    then have "round64 (of_int (- a)) = Fin (of_int (- a))" by (rule round64_of_int)
    then have "round64 (- of_int a) = Fin (- of_int a)" by simp
    then have "num_neg (round64 (of_int a)) = Fin (- of_int a)" by (simp only: round64_minus)
    then show ?thesis by (cases "round64 (of_int a :: rat)") simp_all
  qed
qed

lemma slides_length_deck:
  assumes "presentation st = JObj kvs" and "map_of kvs (js ''slides'') = Some (JArr xs)"
  shows "slides_length (presentation st) = Inr (Fin (of_nat (length xs)))"
  by (simp add: slides_length_def assms then_do_simps to_number_def)

text \<open>
  On a deck of slides, at an index of the deck: \<open>nextSlide\<close> moves to the next index if
  there is one and does nothing at the last; \<open>prevSlide\<close> moves back and does nothing at
  the first; \<open>goToSlide\<close> sets the index it is given, and the indicators and thumbnails
  of the viewer give it the indices of the deck.
\<close>

lemma nextSlide_on_deck:
  assumes "presentation st = JObj kvs" and "map_of kvs (js ''slides'') = Some (JArr xs)"
    and "length xs < 2 ^ 53" and "currentSlide st = Fin (of_nat i)" and "i < length xs"
  shows "nextSlide (st, ls) =
     Inr (if i + 1 < length xs
          then (st\<lparr>currentSlide := Fin (of_nat (i + 1))\<rparr>,
                setItem ls (js ''raw2ready_currentSlide'') (JStr (num_to_string (Fin (of_nat (i + 1))))))
          else (st, ls))"
proof -
  have n1: "of_nat (length xs) + - 1 = (of_int (int (length xs) - 1) :: rat)" by simp
  have "\<bar>int (length xs) - 1\<bar> < 2 ^ 53" using assms(3,5) by simp
  then have sub: "num_sub (Fin (of_nat (length xs))) (Fin 1) = Fin (of_int (int (length xs) - 1))"
    unfolding num_sub_def num_neg.simps num_add.simps n1 by (rule round64_int_exact)
  have n2: "of_nat i + 1 = (of_int (int i + 1) :: rat)" by simp
  have "\<bar>int i + 1\<bar> < 2 ^ 53" using assms(3,5) by simp
  then have "num_add (Fin (of_nat i)) (Fin 1) = Fin (of_int (int i + 1))"
    unfolding num_add.simps n2 by (rule round64_int_exact)
  then have add: "num_add (Fin (of_nat i)) (Fin 1) = Fin (of_nat (i + 1))" by simp
  have lt: "num_less (Fin (of_nat i)) (Fin (of_int (int (length xs) - 1))) = (i + 1 < length xs)"
  proof -
    have "((of_nat i :: rat) < of_int (int (length xs) - 1)) = (int i < int (length xs) - 1)"
      by (metis of_int_less_iff of_int_of_nat_eq)
    also have "\<dots> = (i + 1 < length xs)" by linarith
    finally show ?thesis by (simp only: num_less.simps)
  qed
  have len: "slides_length (JObj kvs) = Inr (Fin (of_nat (length xs)))"
    using slides_length_deck [OF assms(1,2)] by (simp only: assms(1))
  have cur: "num_add (currentSlide st) (Fin 1) = Fin (of_nat (i + 1))"
    by (simp only: assms(4) add)
  show ?thesis
    by (simp add: nextSlide_def assms(1,4) len then_do_simps sub lt cur [unfolded assms(4)] Let_def
        del: of_nat_add of_nat_Suc num_add.simps)
qed

lemma prevSlide_on_deck:
  assumes "currentSlide st = Fin (of_nat i)" and "i < 2 ^ 53"
  shows "prevSlide (st, ls) =
     (if 0 < i
      then (st\<lparr>currentSlide := Fin (of_nat (i - 1))\<rparr>,
            setItem ls (js ''raw2ready_currentSlide'') (JStr (num_to_string (Fin (of_nat (i - 1))))))
      else (st, ls))"
proof (cases "0 < i")
  case False
  then show ?thesis by (simp add: prevSlide_def assms(1))
next
  case True
  then have n: "of_nat i + - 1 = (of_int (int (i - 1)) :: rat)" by (simp add: of_nat_diff)
  have "\<bar>int (i - 1)\<bar> < 2 ^ 53" using assms(2) by simp
  then have "num_sub (Fin (of_nat i)) (Fin 1) = Fin (of_int (int (i - 1)))"
    unfolding num_sub_def num_neg.simps num_add.simps n by (rule round64_int_exact)
  then have sub: "num_sub (Fin (of_nat i)) (Fin 1) = Fin (of_nat (i - 1))" by simp
  show ?thesis
    using True by (simp add: prevSlide_def assms(1) sub Let_def)
qed

lemma nine: "num_to_string (Fin 9) = js ''9''"
  by code_simp

lemma index_nine: "array_index (js ''9'') = Some 9"
  by (simp add: array_index_def js_def is_digit_def digits_value_def)

lemma edit_prompt_not_blank: "trim (js ''make it shorter'') \<noteq> []"
  using blank_iff [of "js ''make it shorter''"] by (simp add: blank_def js_def is_ws_def)

text \<open>
  Claim C2 fails on the code. The viewer shows a deck of ten slides; the indicator of the
  last slide sets the index 9; an edit then succeeds with a deck of five slides.
  \<open>handleEditPresentation\<close> replaces the deck and leaves the index alone: the index is 9 on
  a deck whose indices are 0 to 4, and the viewer, which reads the slide under the index
  and then its \<open>slide_number\<close>, throws.
\<close>

theorem edit_leaves_index_beyond_deck:
  "page_after (handleEditPresentation five_slides (goToSlide (Fin 9) (viewing_ten, (\<lambda>k. None))))
     = Some after_edit \<and>
   currentSlide after_edit = Fin 9 \<and>
   slides_length (presentation after_edit) = Inr (Fin 5) \<and>
   renderPresentationViewer after_edit = Inl TypeError"
proof (intro conjI)
  have r: "response_data (js ''Failed to edit presentation'') (ok_response (deck [1, 2, 3, 4, 5]))
      = Inr (deck [1, 2, 3, 4, 5])"
    by (simp add: response_data_def ok_response_def ok_def)
  have p: "presentation viewing_ten = deck [1, 2, 3, 4, 5, 6, 7, 8, 9, 10]"
    and e: "editPrompt viewing_ten = js ''make it shorter''"
    by (simp_all add: viewing_ten_def)
  have t: "truthy (deck ks)" for ks by (simp add: deck_def)
  have g: "\<exists>v. get_prop (deck ks) (js ''slides'') = Inr v" for ks by (simp add: deck_def)
  obtain v where v: "get_prop (deck [1, 2, 3, 4, 5, 6, 7, 8, 9, 10]) (js ''slides'') = Inr v"
    using g by blast
  show "page_after (handleEditPresentation five_slides (goToSlide (Fin 9) (viewing_ten, (\<lambda>k. None))))
     = Some after_edit"
    by (simp add: goToSlide_def handleEditPresentation_def p e edit_prompt_not_blank t v
        five_slides_def then_do_simps r page_after_def after_edit_def)
  show "currentSlide after_edit = Fin 9"
    by (simp add: after_edit_def)
  show "slides_length (presentation after_edit) = Inr (Fin 5)"
    by (simp add: after_edit_def slides_length_def deck_def js_eq_iff then_do_simps to_number_def)
  show "renderPresentationViewer after_edit = Inl TypeError"
    by (simp add: renderPresentationViewer_def after_edit_def deck_def js_eq_iff then_do_simps
        nine index_nine)
qed

section \<open>Loading from a corrupted store\<close>





section \<open>Reading back a quoted string\<close>

lemma unat_small: "n < 65536 \<Longrightarrow> unat (word_of_nat n :: 16 word) = n"
  by (simp add: unat_of_nat)

lemma word_le_small:
  "a < 65536 \<Longrightarrow> b < 65536 \<Longrightarrow> ((word_of_nat a :: 16 word) \<le> word_of_nat b) = (a \<le> b)"
  by (simp add: word_le_nat_alt unat_small)

lemma hex_value_digit:
  assumes "d < 16"
  shows "hex_value (hex_digit d) = Some d"
proof -
  from assms have "d = 0 \<or> d = 1 \<or> d = 2 \<or> d = 3 \<or> d = 4 \<or> d = 5 \<or> d = 6 \<or> d = 7 \<or> d = 8 \<or>
      d = 9 \<or> d = 10 \<or> d = 11 \<or> d = 12 \<or> d = 13 \<or> d = 14 \<or> d = 15"
    by presburger
  then show ?thesis
    by (elim disjE) (simp_all add: hex_digit_def hex_value_def)
qed

lemma hex4_value_hex4:
  "hex4_value (hex_digit (unat c div 4096)) (hex_digit (unat c div 256 mod 16))
     (hex_digit (unat c div 16 mod 16)) (hex_digit (unat c mod 16)) = Some (c :: 16 word)"
proof -
  let ?n = "unat c"
  have lt: "?n < 65536" using unsigned_less [of c, where ?'a = nat] by simp
  then have d1: "?n div 4096 < 16" by simp
  have a: "?n div 256 = ?n div 16 div 16" and b: "?n div 4096 = ?n div 16 div 16 div 16"
    by (simp_all add: div_mult2_eq)
  have e: "((?n div 4096 * 16 + ?n div 256 mod 16) * 16 + ?n div 16 mod 16) * 16 + ?n mod 16 = ?n"
    by (simp only: a b div_mult_mod_eq)
  have h: "hex_value (hex_digit (?n div 4096)) = Some (?n div 4096)"
    "hex_value (hex_digit (?n div 256 mod 16)) = Some (?n div 256 mod 16)"
    "hex_value (hex_digit (?n div 16 mod 16)) = Some (?n div 16 mod 16)"
    "hex_value (hex_digit (?n mod 16)) = Some (?n mod 16)"
    by (simp_all add: hex_value_digit d1)
  have w: "(word_of_nat ?n :: 16 word) = c" by simp
  show ?thesis
    unfolding hex4_value_def h by (simp only: prod.case option.case e w)
qed

lemma cons_char_simps:
  "cons_char c None = None" "cons_char c (Some (s, rest)) = Some (c # s, rest)"
  by (simp_all add: cons_char_def)

lemma scan_raw:
  assumes "c \<noteq> 0x22" and "c \<noteq> 0x5C" and "\<not> c < 0x20"
  shows "scan_string (c # t) = cons_char c (scan_string t)"
  using assms by simp

lemma scan_unicode_escape:
  "scan_string (0x5C # 0x75 # hex4 c @ t) = cons_char c (scan_string t)"
  by (simp add: hex4_def Let_def hex4_value_hex4)

lemma surrogate_raw:
  assumes "is_high_surrogate c \<or> is_low_surrogate c"
  shows "c \<noteq> 0x22 \<and> c \<noteq> 0x5C \<and> \<not> c < 0x20"
  using assms by (auto simp: is_high_surrogate_def is_low_surrogate_def word_le_nat_alt word_less_nat_alt)

lemma scan_escape: "scan_string (json_escape c @ t) = cons_char c (scan_string t)"
proof -
  consider "c = 0x08" | "c = 0x09" | "c = 0x0A" | "c = 0x0C" | "c = 0x0D" | "c = 0x22" | "c = 0x5C"
    | "c \<noteq> 0x08" "c \<noteq> 0x09" "c \<noteq> 0x0A" "c \<noteq> 0x0C" "c \<noteq> 0x0D" "c \<noteq> 0x22" "c \<noteq> 0x5C"
      "c < 0x20 \<or> is_high_surrogate c \<or> is_low_surrogate c"
    | "c \<noteq> 0x08" "c \<noteq> 0x09" "c \<noteq> 0x0A" "c \<noteq> 0x0C" "c \<noteq> 0x0D" "c \<noteq> 0x22" "c \<noteq> 0x5C"
      "\<not> (c < 0x20 \<or> is_high_surrogate c \<or> is_low_surrogate c)"
    by blast
  then show ?thesis
  proof cases
    case 8
    then have "json_escape c = 0x5C # 0x75 # hex4 c"
      by (simp add: json_escape_def)
    then show ?thesis by (simp only: scan_unicode_escape append_Cons)
  next
    case 9
    then have "json_escape c = [c]" by (simp add: json_escape_def)
    with 9 show ?thesis by simp
  qed (simp_all add: json_escape_def unescape_def)
qed

lemma scan_quoted: "scan_string (quote_chars s @ 0x22 # rest) = Some (s, rest)"
proof (induction s rule: quote_chars.induct)
  case 1
  show ?case by simp
next
  case (2 c)
  have "scan_string (json_escape c @ 0x22 # rest) = cons_char c (scan_string (0x22 # rest))"
    by (rule scan_escape)
  then show ?case by (simp add: cons_char_simps)
next
  case (3 c d cs)
  show ?case
  proof (cases "is_high_surrogate c \<and> is_low_surrogate d")
    case True
    then have rc: "c \<noteq> 0x22 \<and> c \<noteq> 0x5C \<and> \<not> c < 0x20" and rd: "d \<noteq> 0x22 \<and> d \<noteq> 0x5C \<and> \<not> d < 0x20"
      by (simp_all add: surrogate_raw)
    have q: "quote_chars (c # d # cs) @ 0x22 # rest = c # d # quote_chars cs @ 0x22 # rest"
      by (simp only: quote_chars.simps(3) [of c d cs] True simp_thms if_True append_Cons)
    have ih: "scan_string (quote_chars cs @ 0x22 # rest) = Some (cs, rest)"
      using True by (rule "3.IH"(1))
    have s1: "scan_string (c # d # quote_chars cs @ 0x22 # rest) =
        cons_char c (scan_string (d # quote_chars cs @ 0x22 # rest))"
      using rc by (intro scan_raw) simp_all
    have s2: "scan_string (d # quote_chars cs @ 0x22 # rest) =
        cons_char d (scan_string (quote_chars cs @ 0x22 # rest))"
      using rd by (intro scan_raw) simp_all
    show ?thesis
      unfolding q s1 s2 ih cons_char_simps ..
  next
    case False
    have q: "quote_chars (c # d # cs) @ 0x22 # rest =
        json_escape c @ quote_chars (d # cs) @ 0x22 # rest"
      by (simp only: quote_chars.simps(3) [of c d cs] False if_False append_assoc)
    have ih: "scan_string (quote_chars (d # cs) @ 0x22 # rest) = Some (d # cs, rest)"
      using False by (rule "3.IH"(2))
    show ?thesis
      unfolding q scan_escape ih cons_char_simps ..
  qed
qed

lemma cons_token_simps:
  "cons_token t None = None" "cons_token t (Some ts) = Some (t # ts)"
  by (simp_all add: cons_token_def)

lemma tokens_quoted: "tokens (json_quote s @ rest) = cons_token (TStr s) (tokens rest)"
  by (simp add: json_quote_def json_ws_def scan_quoted)

lemma tokens_punctuation:
  "tokens (js ''{'' @ rest) = cons_token TLBrace (tokens rest)"
  "tokens (js ''}'' @ rest) = cons_token TRBrace (tokens rest)"
  "tokens (js '':'' @ rest) = cons_token TColon (tokens rest)"
  "tokens (js '','' @ rest) = cons_token TComma (tokens rest)"
  by (simp_all add: js_def json_ws_def)

section \<open>Reading back a form of string fields\<close>

lemma tokens_member:
  "tokens (json_quote k @ js '':'' @ json_quote v @ rest) =
     map_option (\<lambda>ts. TStr k # TColon # TStr v # ts) (tokens rest)"
  by (cases "tokens rest") (simp_all add: tokens_quoted tokens_punctuation cons_token_simps)

lemma tokens_members:
  "tokens (join_with (js '','')
       (map (\<lambda>kv. json_quote (fst kv) @ js '':'' @ json_quote (snd kv)) kvs) @ rest) =
     map_option (\<lambda>ts. member_tokens kvs @ ts) (tokens rest)"
proof (induction kvs rule: member_tokens.induct)
  case 1
  show ?case by (cases "tokens rest") simp_all
next
  case (2 kv)
  show ?case by (simp add: tokens_member)
next
  case (3 kv kv' kvs)
  have "tokens (join_with (js '','')
       (map (\<lambda>kv. json_quote (fst kv) @ js '':'' @ json_quote (snd kv)) (kv # kv' # kvs)) @ rest) =
     tokens (json_quote (fst kv) @ js '':'' @ json_quote (snd kv) @ js '','' @
       join_with (js '','')
         (map (\<lambda>kv. json_quote (fst kv) @ js '':'' @ json_quote (snd kv)) (kv' # kvs)) @ rest)"
    by simp
  also have "\<dots> = map_option (\<lambda>ts. TStr (fst kv) # TColon # TStr (snd kv) # ts)
      (cons_token TComma (map_option (\<lambda>ts. member_tokens (kv' # kvs) @ ts) (tokens rest)))"
    unfolding tokens_member tokens_punctuation "3.IH" ..
  also have "\<dots> = map_option (\<lambda>ts. member_tokens (kv # kv' # kvs) @ ts) (tokens rest)"
    by (cases "tokens rest") (simp_all add: cons_token_simps)
  finally show ?case .
qed

lemma serialize_string_object:
  "serialize (string_object kvs) =
     js ''{'' @ join_with (js '','')
       (map (\<lambda>kv. json_quote (fst kv) @ js '':'' @ json_quote (snd kv)) kvs) @ js ''}''"
  by (simp add: string_object_def filter_map o_def)

lemma tokens_closing_brace: "tokens (js ''}'') = Some [TRBrace]"
  by (simp add: js_def json_ws_def cons_token_simps)

lemma tokens_string_object:
  "tokens (serialize (string_object kvs)) = Some (TLBrace # member_tokens kvs @ [TRBrace])"
  unfolding serialize_string_object tokens_punctuation tokens_members tokens_closing_brace
  by (simp add: cons_token_simps)

lemma set_key_fresh: "k \<notin> fst ` set acc \<Longrightarrow> set_key acc k v = acc @ [(k, v)]"
  by (induction acc) auto

lemma parse_members:
  assumes "kvs \<noteq> []" and "distinct (map fst acc @ map fst kvs)" and "m = MObjStart \<or> m = MKey"
  shows "parse_tokens m [FObj acc] (member_tokens kvs @ [TRBrace]) =
     Some (JObj (acc @ map (\<lambda>kv. (fst kv, JStr (snd kv))) kvs))"
  using assms
proof (induction kvs arbitrary: acc m rule: member_tokens.induct)
  case 1
  then show ?case by simp
next
  case (2 kv)
  then have "fst kv \<notin> fst ` set acc" by auto
  then have "set_key acc (fst kv) (JStr (snd kv)) = acc @ [(fst kv, JStr (snd kv))]"
    by (rule set_key_fresh)
  with 2(3) show ?case by auto
next
  case (3 kv kv' kvs)
  from "3.prems"(2) have "fst kv \<notin> fst ` set acc" by auto
  then have s: "set_key acc (fst kv) (JStr (snd kv)) = acc @ [(fst kv, JStr (snd kv))]"
    by (rule set_key_fresh)
  from "3.prems"(2)
  have d: "distinct (map fst (acc @ [(fst kv, JStr (snd kv))]) @ map fst (kv' # kvs))"
    by auto
  have ih: "parse_tokens MKey [FObj (acc @ [(fst kv, JStr (snd kv))])]
      (member_tokens (kv' # kvs) @ [TRBrace]) =
     Some (JObj ((acc @ [(fst kv, JStr (snd kv))]) @ map (\<lambda>kv. (fst kv, JStr (snd kv))) (kv' # kvs)))"
    by (rule "3.IH" [OF _ d]) simp_all
  have "parse_tokens m [FObj acc] (member_tokens (kv # kv' # kvs) @ [TRBrace]) =
     parse_tokens MKey [FObj (acc @ [(fst kv, JStr (snd kv))])]
       (member_tokens (kv' # kvs) @ [TRBrace])"
    using "3.prems"(3) by (auto simp add: s)
  with ih show ?case by simp
qed

lemma JSON_parse_string_object:
  assumes "distinct (map fst kvs)"
  shows "JSON_parse (serialize (string_object kvs)) = Some (string_object kvs)"
proof (cases "kvs = []")
  case True
  have t: "tokens (serialize (string_object [])) = Some [TLBrace, TRBrace]"
    by (simp add: tokens_string_object)
  show ?thesis
    unfolding True JSON_parse_def t by (simp add: string_object_def)
next
  case False
  from parse_members [of kvs "[]" MObjStart] False assms
  have "parse_tokens MObjStart [FObj []] (member_tokens kvs @ [TRBrace]) =
      Some (string_object kvs)"
    by (simp add: string_object_def)
  then show ?thesis
    by (simp add: JSON_parse_def tokens_string_object)
qed

lemma set_key_string_fields:
  "set_key (map (\<lambda>kv. (fst kv, JStr (snd kv))) kvs) name (JStr val) =
     map (\<lambda>kv. (fst kv, JStr (snd kv))) (set_field kvs name val)"
  by (induction kvs) auto

lemma keys_set_field: "fst ` set (set_field kvs k v) = insert k (fst ` set kvs)"
proof (induction kvs)
  case Nil
  show ?case by simp
next
  case (Cons kv kvs)
  obtain k' v' where kv: "kv = (k', v')" by (cases kv)
  show ?case
  proof (cases "k' = k")
    case True
    with kv show ?thesis by simp
  next
    case False
    with kv Cons show ?thesis by (simp add: insert_commute)
  qed
qed

lemma distinct_set_field:
  "distinct (map fst kvs) \<Longrightarrow> distinct (map fst (set_field kvs k v))"
proof (induction kvs)
  case Nil
  show ?case by simp
next
  case (Cons kv kvs)
  obtain k' v' where kv: "kv = (k', v')" by (cases kv)
  show ?case
  proof (cases "k' = k")
    case True
    with Cons.prems kv show ?thesis by simp
  next
    case False
    with Cons kv show ?thesis by (simp add: keys_set_field)
  qed
qed

lemma map_of_set_field:
  "map_of (set_field kvs k v) k' = (if k' = k then Some v else map_of kvs k')"
  by (induction kvs) auto

lemma get_prop_string_object:
  "get_prop (string_object kvs) k =
     Inr (case map_of kvs k of Some v \<Rightarrow> JStr v | None \<Rightarrow> JUndefined)"
proof -
  have "map_of (map (\<lambda>kv. (fst kv, JStr (snd kv))) kvs) k = map_option JStr (map_of kvs k)"
    by (induction kvs) auto
  then show ?thesis
    by (simp add: string_object_def split: option.splits)
qed

lemma serialize_string_object_not_empty: "serialize (string_object kvs) \<noteq> []"
  by (simp add: serialize_string_object js_def)

lemma handleChange_string_object:
  assumes "formData st = string_object kvs"
  shows "formData (fst (handleChange name val (st, ls))) = string_object (set_field kvs name val)"
    and "snd (handleChange name val (st, ls)) (js ''raw2ready_formData'') =
           Some (serialize (string_object (set_field kvs name val)))"
proof -
  have u: "JObj (set_key (spread (formData st)) name (JStr val)) =
      string_object (set_field kvs name val)"
    by (simp add: assms string_object_def set_key_string_fields)
  show "formData (fst (handleChange name val (st, ls))) = string_object (set_field kvs name val)"
    by (simp add: handleChange_def Let_def u)
  have ne: "string_object (set_field kvs name val) \<noteq> JUndefined"
    by (simp add: string_object_def)
  have s: "snd (handleChange name val (st, ls)) =
      setItem ls (js ''raw2ready_formData'')
        (JSON_stringify (JObj (set_key (spread (formData st)) name (JStr val))))"
    by (simp add: handleChange_def Let_def)
  show "snd (handleChange name val (st, ls)) (js ''raw2ready_formData'') =
           Some (serialize (string_object (set_field kvs name val)))"
    unfolding s u by (simp add: setItem_def JSON_stringify_def ne)
qed

lemma reload_after_handleChange:
  assumes "formData st = string_object kvs" and "distinct (map fst kvs)"
  shows "formData (initial_form_page (snd (handleChange name val (st, ls)))) =
           string_object (set_field kvs name val)"
proof -
  have "JSON_parse (serialize (string_object (set_field kvs name val))) =
      Some (string_object (set_field kvs name val))"
    using assms(2) by (intro JSON_parse_string_object distinct_set_field)
  then show ?thesis
    by (simp add: initial_form_page_def loadSavedFormData_def
        handleChange_string_object(2) [OF assms(1)] serialize_string_object_not_empty)
qed

lemma defaultFormData_fields: "defaultFormData = string_object default_fields"
  by (simp add: defaultFormData_def string_object_def default_fields_def)

lemma default_fields_distinct: "distinct (map fst default_fields)"
  by (simp add: default_fields_def js_eq_iff)

section \<open>Editing a field and loading the form again\<close>

lemma initial_form_on_empty_store:
  "formData (initial_form_page (\<lambda>k. None)) = string_object default_fields"
  by (simp add: initial_form_page_def loadSavedFormData_def defaultFormData_fields)

lemma default_model:
  "get_prop (string_object default_fields) (js ''model'') = Inr (JStr (js ''chatgpt-latest''))"
  by (simp add: get_prop_string_object default_fields_def js_eq_iff)

text \<open>
  Claim C9. Let the form be an object of string fields with distinct names, as it is from
  the default form on. After \<open>handleChange\<close> of any field to any string, the form that the
  stage loads from the store when it starts again is the form that the edit has left on
  the page: the edited field holds the new value and every other field holds the value it
  had. The edited form is again an object of string fields with distinct names, so the
  same holds after any number of edits. The form has no field for an attached file, and
  nothing but the form is written under its key.
\<close>

theorem form_edit_round_trip:
  assumes "formData st = string_object kvs" and "distinct (map fst kvs)"
  shows "formData (initial_form_page (snd (handleChange name val (st, ls)))) =
           formData (fst (handleChange name val (st, ls))) \<and>
         get_prop (formData (initial_form_page (snd (handleChange name val (st, ls))))) name =
           Inr (JStr val) \<and>
         (k \<noteq> name \<longrightarrow>
            get_prop (formData (initial_form_page (snd (handleChange name val (st, ls))))) k =
              get_prop (formData st) k) \<and>
         formData (fst (handleChange name val (st, ls))) = string_object (set_field kvs name val) \<and>
         distinct (map fst (set_field kvs name val))"
proof -
  have r: "formData (initial_form_page (snd (handleChange name val (st, ls)))) =
      string_object (set_field kvs name val)"
    using assms by (rule reload_after_handleChange)
  have e: "formData (fst (handleChange name val (st, ls))) = string_object (set_field kvs name val)"
    using assms(1) by (rule handleChange_string_object(1))
  have d: "distinct (map fst (set_field kvs name val))"
    using assms(2) by (rule distinct_set_field)
  show ?thesis
    unfolding r e assms(1) using d by (simp add: get_prop_string_object map_of_set_field)
qed

theorem form_edit_round_trip_witness:
  "formData (initial_form_page (snd (handleChange (js ''city'') (js ''Paris'')
       (initial_form_page (\<lambda>k. None), (\<lambda>k. None))))) =
     formData (fst (handleChange (js ''city'') (js ''Paris'')
       (initial_form_page (\<lambda>k. None), (\<lambda>k. None)))) \<and>
   get_prop (formData (initial_form_page (snd (handleChange (js ''city'') (js ''Paris'')
       (initial_form_page (\<lambda>k. None), (\<lambda>k. None)))))) (js ''city'') =
     Inr (JStr (js ''Paris'')) \<and>
   get_prop (formData (initial_form_page (snd (handleChange (js ''city'') (js ''Paris'')
       (initial_form_page (\<lambda>k. None), (\<lambda>k. None)))))) (js ''model'') =
     Inr (JStr (js ''chatgpt-latest''))"
proof -
  let ?start = "initial_form_page (\<lambda>k. None)"
  let ?reloaded = "formData (initial_form_page (snd (handleChange (js ''city'') (js ''Paris'')
       (?start, (\<lambda>k. None)))))"
  have n: "js ''model'' \<noteq> js ''city''"
    by (simp add: js_eq_iff)
  have g: "get_prop (formData ?start) (js ''model'') = Inr (JStr (js ''chatgpt-latest''))"
    unfolding initial_form_on_empty_store by (rule default_model)
  note t = form_edit_round_trip [where name = "js ''city''" and val = "js ''Paris''"
      and ls = "\<lambda>k. None" and k = "js ''model''",
      OF initial_form_on_empty_store default_fields_distinct]
  from t n have "get_prop ?reloaded (js ''model'') = get_prop (formData ?start) (js ''model'')"
    by blast
  then have "get_prop ?reloaded (js ''model'') = Inr (JStr (js ''chatgpt-latest''))"
    using g by (rule trans)
  with t show ?thesis
    by blast
qed

end
